theory Spec2Isabelle
  imports Complex_Main "HOL-Library.Multiset"
begin

section \<open>Python values and errors\<close>

text \<open>
  The script \<^verbatim>\<open>mytest/create_pptx.py\<close> builds a slide deck through the presentation
  library and one bitmap through the imaging library. Every object it touches is mutable and
  shared by reference; the model passes the objects explicitly and returns them updated.
  An exception is a value: a procedure returns \<open>Inl e\<close> when the Python raises \<open>e\<close> and
  \<open>Inr ()\<close> when it returns \<open>None\<close>, together with the objects as the call left them,
  since what was mutated before a raise stays mutated.

  Strings are the UTF-8 bytes of the Python string. No operation of the script counts
  characters, and a line feed is one byte that is part of no other character's encoding, so
  splitting and joining lines on bytes is splitting and joining them on characters.
\<close>

datatype error = IndexError | KeyError | TypeError | OSError

definition newline :: char where
  "newline = CHR 0x0A"

definition vtab :: char where
  "vtab = CHR 0x0B"

fun split_on :: "char \<Rightarrow> string \<Rightarrow> string list" where
  \<comment> \<open>\<^verbatim>\<open>s.split(c)\<close> for a one-character separator: never the empty list\<close>
  "split_on c [] = [[]]"
| "split_on c (x # xs) =
     (if x = c then [] # split_on c xs
      else (case split_on c xs of
              [] \<Rightarrow> [[x]]
            | w # ws \<Rightarrow> (x # w) # ws))"

fun join_with :: "char \<Rightarrow> string list \<Rightarrow> string" where
  \<comment> \<open>\<^verbatim>\<open>c.join(ss)\<close>\<close>
  "join_with c [] = []"
| "join_with c [s] = s"
| "join_with c (s # t # ss) = s @ c # join_with c (t # ss)"

section \<open>Lengths: \<^verbatim>\<open>pptx.util\<close>\<close>

text \<open>
  \<^verbatim>\<open>Inches(x)\<close> is \<^verbatim>\<open>int(x * 914400)\<close> and \<^verbatim>\<open>Pt(x)\<close> is \<^verbatim>\<open>int(x * 12700)\<close>, in English
  Metric Units. The arguments of the script are integers or the floats 0.5, 1.5, 2.5 and
  5.5, which are exact in binary, so rational arithmetic gives the value the Python gives.
\<close>

definition py_int :: "rat \<Rightarrow> int" where
  \<comment> \<open>\<^verbatim>\<open>int(x)\<close> truncates towards zero\<close>
  "py_int x = (if 0 \<le> x then \<lfloor>x\<rfloor> else \<lceil>x\<rceil>)"

definition Inches :: "rat \<Rightarrow> int" where
  "Inches inches = py_int (inches * 914400)"

definition Pt :: "rat \<Rightarrow> int" where
  "Pt points = py_int (points * 12700)"

section \<open>Enumerations of the library\<close>

text \<open>
  The members the script names, and a few of their siblings. The library's lists are longer;
  the remaining members of the shape list are \<open>MSO_SHAPE_OTHER\<close> with the member's number.
\<close>

datatype PP_ALIGN = LEFT | CENTER | RIGHT | JUSTIFY | DISTRIBUTE

datatype MSO_SHAPE =
  RECTANGLE | OVAL | ISOSCELES_TRIANGLE | STAR_5_POINT | HEART | MSO_SHAPE_OTHER nat

datatype XL_CHART_TYPE =
  COLUMN_CLUSTERED | COLUMN_STACKED | BAR_CLUSTERED | LINE_CHART | PIE_CHART

datatype RGBColor = RGBColor nat nat nat

section \<open>Text\<close>

text \<open>
  Modelled from the spec: the presentation library is not under \<^verbatim>\<open>src/\<close>; the spec names its
  entities (document, slide, shape, text-frame, table, chart) and says the script mutates
  them through setter calls. The model keeps of each entity the properties the script sets.

  A text frame is its list of paragraphs, never empty. Assigning \<^verbatim>\<open>text\<close> to a text frame
  (or to a shape or a cell, which pass it on to their text frame) replaces all paragraphs
  by one fresh paragraph for each line of the string; assigning \<^verbatim>\<open>text\<close> to a paragraph
  keeps the paragraph's properties and turns a line feed into a line break, which reads
  back as a vertical tab.
\<close>

record font =
  font_size :: "int option"
  font_bold :: "bool option"
  font_italic :: "bool option"

record Paragraph =
  p_text :: string
  p_level :: nat
  p_font :: font
  p_alignment :: "PP_ALIGN option"

type_synonym text_frame = "Paragraph list"

definition new_font :: font where
  "new_font = \<lparr>font_size = None, font_bold = None, font_italic = None\<rparr>"

definition new_paragraph :: Paragraph where
  "new_paragraph = \<lparr>p_text = [], p_level = 0, p_font = new_font, p_alignment = None\<rparr>"

definition new_text_frame :: text_frame where
  "new_text_frame = [new_paragraph]"

definition text_frame_set_text :: "string \<Rightarrow> text_frame \<Rightarrow> text_frame" where
  \<comment> \<open>\<^verbatim>\<open>text_frame.text = text\<close>\<close>
  "text_frame_set_text text tf = map (\<lambda>t. new_paragraph\<lparr>p_text := t\<rparr>) (split_on newline text)"

definition text_frame_text :: "text_frame \<Rightarrow> string" where
  \<comment> \<open>reading \<^verbatim>\<open>text_frame.text\<close>\<close>
  "text_frame_text tf = join_with newline (map p_text tf)"

definition paragraph_set_text :: "string \<Rightarrow> Paragraph \<Rightarrow> Paragraph" where
  \<comment> \<open>\<^verbatim>\<open>p.text = text\<close>\<close>
  "paragraph_set_text text p = p\<lparr>p_text := map (\<lambda>c. if c = newline then vtab else c) text\<rparr>"

section \<open>Charts, tables and images\<close>

record chart_data =
  cd_categories :: "string list"
  cd_series :: "(string \<times> rat list) list"

definition CategoryChartData :: chart_data where
  "CategoryChartData = \<lparr>cd_categories = [], cd_series = []\<rparr>"

definition add_series :: "string \<Rightarrow> rat list \<Rightarrow> chart_data \<Rightarrow> chart_data" where
  "add_series name vals cd = cd\<lparr>cd_series := cd_series cd @ [(name, vals)]\<rparr>"

record chart =
  chart_type :: XL_CHART_TYPE
  chart_categories :: "string list"
  chart_series :: "(string \<times> rat list) list"
  chart_title :: "text_frame option"

text \<open>A table is its rows, a row its cells, a cell its text frame.\<close>

type_synonym table = "text_frame list list"

definition new_table :: "nat \<Rightarrow> nat \<Rightarrow> table" where
  "new_table rows cols = replicate rows (replicate cols new_text_frame)"

text \<open>
  Modelled from the spec: the imaging library is not under \<^verbatim>\<open>src/\<close>; the spec names a bitmap
  and a drawing context. Rendering text into pixels is the library's, so a bitmap is kept as
  its mode, size and background together with the drawing calls made on it, in order. The
  drawing context made by \<^verbatim>\<open>ImageDraw.Draw(img)\<close> draws on \<open>img\<close> itself.
\<close>

datatype draw_call =
    Rectangle "(int \<times> int) list" "string option" "string option" nat
  | Text "int \<times> int" string "string option" "string option"

record pil_image =
  im_mode :: string
  im_size :: "nat \<times> nat"
  im_color :: string
  im_calls :: "draw_call list"

definition Image_new :: "string \<Rightarrow> nat \<times> nat \<Rightarrow> string \<Rightarrow> pil_image" where
  "Image_new mode sz color =
     \<lparr>im_mode = mode, im_size = sz, im_color = color, im_calls = []\<rparr>"

definition draw_rectangle ::
  "(int \<times> int) list \<Rightarrow> string option \<Rightarrow> string option \<Rightarrow> nat \<Rightarrow> pil_image \<Rightarrow> pil_image" where
  \<comment> \<open>\<^verbatim>\<open>draw.rectangle(xy, fill=None, outline=None, width=1)\<close>\<close>
  "draw_rectangle xy fill outline width img =
     img\<lparr>im_calls := im_calls img @ [Rectangle xy fill outline width]\<rparr>"

definition draw_text ::
  "int \<times> int \<Rightarrow> string \<Rightarrow> string option \<Rightarrow> string option \<Rightarrow> pil_image \<Rightarrow> pil_image" where
  \<comment> \<open>\<^verbatim>\<open>draw.text(xy, text, fill=None, anchor=None)\<close>\<close>
  "draw_text xy text fill anchor img =
     img\<lparr>im_calls := im_calls img @ [Text xy text fill anchor]\<rparr>"

text \<open>
  The bytes of an encoded image are not computed: \<open>Encoded fmt img\<close> stands for the byte
  string that encoding \<open>img\<close> in format \<open>fmt\<close> gives, and a byte stream holds a list of
  such strings with its position counted in them.
\<close>

datatype encoded = Encoded string pil_image

record BytesIO =
  bio_data :: "encoded list"
  bio_pos :: nat

definition new_BytesIO :: BytesIO where
  "new_BytesIO = \<lparr>bio_data = [], bio_pos = 0\<rparr>"

definition image_save :: "pil_image \<Rightarrow> string \<Rightarrow> BytesIO \<Rightarrow> BytesIO" where
  \<comment> \<open>\<^verbatim>\<open>img.save(fp, format=fmt)\<close> on a stream: writes at the position and moves it\<close>
  "image_save img fmt fp =
     fp\<lparr>bio_data := take (bio_pos fp) (bio_data fp) @ Encoded fmt img
                      # drop (Suc (bio_pos fp)) (bio_data fp),
        bio_pos := Suc (bio_pos fp)\<rparr>"

definition seek :: "nat \<Rightarrow> BytesIO \<Rightarrow> BytesIO" where
  "seek n fp = fp\<lparr>bio_pos := n\<rparr>"

definition read_all :: "BytesIO \<Rightarrow> encoded list" where
  \<comment> \<open>\<^verbatim>\<open>fp.read()\<close>: what lies from the position on\<close>
  "read_all fp = drop (bio_pos fp) (bio_data fp)"

section \<open>The string literals of the script\<close>

definition str_L59 :: string where
  \<comment> \<open>line 59, the prefix of the printed message: presentation saved as: \<close>
  "str_L59 =
   [CHR 0xE6, CHR 0xBC, CHR 0x94, CHR 0xE7, CHR 0xA4, CHR 0xBA, CHR 0xE6, CHR 0x96,
   CHR 0x87, CHR 0xE7, CHR 0xA8, CHR 0xBF, CHR 0xE5, CHR 0xB7, CHR 0xB2, CHR 0xE4, CHR 0xBF,
   CHR 0x9D, CHR 0xE5, CHR 0xAD, CHR 0x98, CHR 0xE4, CHR 0xB8, CHR 0xBA] @ '': ''"

definition str_L71 :: string where
  \<comment> \<open>line 71, the title: creating PowerPoint presentations with Python\<close>
  "str_L71 =
   [CHR 0xE4, CHR 0xBD, CHR 0xBF, CHR 0xE7, CHR 0x94, CHR 0xA8] @ ''Python'' @ [CHR 0xE5,
   CHR 0x88, CHR 0x9B, CHR 0xE5, CHR 0xBB, CHR 0xBA] @ ''PowerPoint'' @ [CHR 0xE6, CHR 0xBC,
   CHR 0x94, CHR 0xE7, CHR 0xA4, CHR 0xBA, CHR 0xE6, CHR 0x96, CHR 0x87, CHR 0xE7, CHR 0xA8,
   CHR 0xBF]"

definition str_L77_head :: string where
  \<comment> \<open>line 77, the f-string before the date: created on \<close>
  "str_L77_head =
   [CHR 0xE5, CHR 0x88, CHR 0x9B, CHR 0xE5, CHR 0xBB, CHR 0xBA, CHR 0xE4, CHR 0xBA,
   CHR 0x8E] @ '' ''"

definition str_L77_tail :: string where
  \<comment> \<open>line 77, the f-string after the date: a newline, then python-pptx example\<close>
  "str_L77_tail =
   [CHR 0x0A] @ ''python-pptx '' @ [CHR 0xE7, CHR 0xA4, CHR 0xBA, CHR 0xE4, CHR 0xBE,
   CHR 0x8B]"

definition str_L89 :: string where
  \<comment> \<open>line 89: Python-PPTX main features\<close>
  "str_L89 =
   ''Python-PPTX '' @ [CHR 0xE4, CHR 0xB8, CHR 0xBB, CHR 0xE8, CHR 0xA6, CHR 0x81, CHR 0xE5,
   CHR 0x8A, CHR 0x9F, CHR 0xE8, CHR 0x83, CHR 0xBD]"

definition str_L101 :: string where
  \<comment> \<open>line 101: the Python-PPTX library can:\<close>
  "str_L101 =
   ''Python-PPTX '' @ [CHR 0xE5, CHR 0xBA, CHR 0x93, CHR 0xE5, CHR 0x8F, CHR 0xAF, CHR 0xE4,
   CHR 0xBB, CHR 0xA5, CHR 0xEF, CHR 0xBC, CHR 0x9A]"

definition str_L105 :: string where
  \<comment> \<open>line 105\<close>
  "str_L105 =
   [CHR 0xE5, CHR 0x88, CHR 0x9B, CHR 0xE5, CHR 0xBB, CHR 0xBA, CHR 0xE6, CHR 0x96,
   CHR 0xB0, CHR 0xE7, CHR 0x9A, CHR 0x84] @ '' PowerPoint '' @ [CHR 0xE6, CHR 0xBC,
   CHR 0x94, CHR 0xE7, CHR 0xA4, CHR 0xBA, CHR 0xE6, CHR 0x96, CHR 0x87, CHR 0xE7, CHR 0xA8,
   CHR 0xBF]"

definition str_L110 :: string where
  \<comment> \<open>line 110\<close>
  "str_L110 =
   [CHR 0xE6, CHR 0xB7, CHR 0xBB, CHR 0xE5, CHR 0x8A, CHR 0xA0, CHR 0xE5, CHR 0x92,
   CHR 0x8C, CHR 0xE6, CHR 0xA0, CHR 0xBC, CHR 0xE5, CHR 0xBC, CHR 0x8F, CHR 0xE5, CHR 0x8C,
   CHR 0x96, CHR 0xE6, CHR 0x96, CHR 0x87, CHR 0xE6, CHR 0x9C, CHR 0xAC, CHR 0xE5, CHR 0x86,
   CHR 0x85, CHR 0xE5, CHR 0xAE, CHR 0xB9]"

definition str_L115 :: string where
  \<comment> \<open>line 115\<close>
  "str_L115 =
   [CHR 0xE6, CHR 0xB7, CHR 0xBB, CHR 0xE5, CHR 0x8A, CHR 0xA0, CHR 0xE5, CHR 0x90,
   CHR 0x84, CHR 0xE7, CHR 0xA7, CHR 0x8D, CHR 0xE5, CHR 0xBD, CHR 0xA2, CHR 0xE7, CHR 0x8A,
   CHR 0xB6, CHR 0xE5, CHR 0x92, CHR 0x8C, CHR 0xE5, CHR 0x9B, CHR 0xBE, CHR 0xE8, CHR 0xA1,
   CHR 0xA8]"

definition str_L120 :: string where
  \<comment> \<open>line 120\<close>
  "str_L120 =
   [CHR 0xE6, CHR 0xB7, CHR 0xBB, CHR 0xE5, CHR 0x8A, CHR 0xA0, CHR 0xE8, CHR 0xA1,
   CHR 0xA8, CHR 0xE6, CHR 0xA0, CHR 0xBC, CHR 0xE5, CHR 0x92, CHR 0x8C, CHR 0xE5, CHR 0x9B,
   CHR 0xBE, CHR 0xE7, CHR 0x89, CHR 0x87]"

definition str_L125 :: string where
  \<comment> \<open>line 125\<close>
  "str_L125 =
   [CHR 0xE8, CHR 0xAF, CHR 0xBB, CHR 0xE5, CHR 0x8F, CHR 0x96, CHR 0xE5, CHR 0x92,
   CHR 0x8C, CHR 0xE4, CHR 0xBF, CHR 0xAE, CHR 0xE6, CHR 0x94, CHR 0xB9, CHR 0xE7, CHR 0x8E,
   CHR 0xB0, CHR 0xE6, CHR 0x9C, CHR 0x89, CHR 0xE7, CHR 0x9A, CHR 0x84, CHR 0xE6, CHR 0xBC,
   CHR 0x94, CHR 0xE7, CHR 0xA4, CHR 0xBA, CHR 0xE6, CHR 0x96, CHR 0x87, CHR 0xE7, CHR 0xA8,
   CHR 0xBF]"

definition str_L140 :: string where
  \<comment> \<open>line 140: shapes demo\<close>
  "str_L140 =
   [CHR 0xE5, CHR 0x90, CHR 0x84, CHR 0xE7, CHR 0xA7, CHR 0x8D, CHR 0xE5, CHR 0xBD,
   CHR 0xA2, CHR 0xE7, CHR 0x8A, CHR 0xB6, CHR 0xE6, CHR 0xBC, CHR 0x94, CHR 0xE7, CHR 0xA4,
   CHR 0xBA]"

definition str_L182 :: string where
  \<comment> \<open>line 182: table demo\<close>
  "str_L182 =
   [CHR 0xE8, CHR 0xA1, CHR 0xA8, CHR 0xE6, CHR 0xA0, CHR 0xBC, CHR 0xE6, CHR 0xBC,
   CHR 0x94, CHR 0xE7, CHR 0xA4, CHR 0xBA]"

definition str_L197_0 :: string where
  \<comment> \<open>line 197, first header: product\<close>
  "str_L197_0 =
   [CHR 0xE4, CHR 0xBA, CHR 0xA7, CHR 0xE5, CHR 0x93, CHR 0x81]"

definition str_L197_1 :: string where
  \<comment> \<open>line 197, second header: quarterly sales\<close>
  "str_L197_1 =
   [CHR 0xE5, CHR 0xAD, CHR 0xA3, CHR 0xE5, CHR 0xBA, CHR 0xA6, CHR 0xE9, CHR 0x94,
   CHR 0x80, CHR 0xE5, CHR 0x94, CHR 0xAE, CHR 0xE9, CHR 0xA2, CHR 0x9D]"

definition str_L197_2 :: string where
  \<comment> \<open>line 197, third header: annual growth rate\<close>
  "str_L197_2 =
   [CHR 0xE5, CHR 0xB9, CHR 0xB4, CHR 0xE5, CHR 0xBA, CHR 0xA6, CHR 0xE5, CHR 0xA2,
   CHR 0x9E, CHR 0xE9, CHR 0x95, CHR 0xBF, CHR 0xE7, CHR 0x8E, CHR 0x87]"

definition str_L206_0 :: string where
  \<comment> \<open>line 206\<close>
  "str_L206_0 =
   [CHR 0xE4, CHR 0xBA, CHR 0xA7, CHR 0xE5, CHR 0x93, CHR 0x81] @ '' A''"

definition str_L206_1 :: string where
  \<comment> \<open>line 206\<close>
  "str_L206_1 =
   [CHR 0xC2, CHR 0xA5] @ ''10,000''"

definition str_L206_2 :: string where
  \<comment> \<open>line 206\<close>
  "str_L206_2 =
   ''+15%''"

definition str_L207_0 :: string where
  \<comment> \<open>line 207\<close>
  "str_L207_0 =
   [CHR 0xE4, CHR 0xBA, CHR 0xA7, CHR 0xE5, CHR 0x93, CHR 0x81] @ '' B''"

definition str_L207_1 :: string where
  \<comment> \<open>line 207\<close>
  "str_L207_1 =
   [CHR 0xC2, CHR 0xA5] @ ''8,500''"

definition str_L207_2 :: string where
  \<comment> \<open>line 207\<close>
  "str_L207_2 =
   ''+10%''"

definition str_L208_0 :: string where
  \<comment> \<open>line 208\<close>
  "str_L208_0 =
   [CHR 0xE4, CHR 0xBA, CHR 0xA7, CHR 0xE5, CHR 0x93, CHR 0x81] @ '' C''"

definition str_L208_1 :: string where
  \<comment> \<open>line 208\<close>
  "str_L208_1 =
   [CHR 0xC2, CHR 0xA5] @ ''12,750''"

definition str_L208_2 :: string where
  \<comment> \<open>line 208\<close>
  "str_L208_2 =
   ''+20%''"

definition str_L227 :: string where
  \<comment> \<open>line 227: chart demo\<close>
  "str_L227 =
   [CHR 0xE5, CHR 0x9B, CHR 0xBE, CHR 0xE8, CHR 0xA1, CHR 0xA8, CHR 0xE6, CHR 0xBC,
   CHR 0x94, CHR 0xE7, CHR 0xA4, CHR 0xBA]"

definition str_L234_0 :: string where
  \<comment> \<open>line 234: first quarter\<close>
  "str_L234_0 =
   [CHR 0xE4, CHR 0xB8, CHR 0x80, CHR 0xE5, CHR 0xAD, CHR 0xA3, CHR 0xE5, CHR 0xBA,
   CHR 0xA6]"

definition str_L234_1 :: string where
  \<comment> \<open>line 234: second quarter\<close>
  "str_L234_1 =
   [CHR 0xE4, CHR 0xBA, CHR 0x8C, CHR 0xE5, CHR 0xAD, CHR 0xA3, CHR 0xE5, CHR 0xBA,
   CHR 0xA6]"

definition str_L234_2 :: string where
  \<comment> \<open>line 234: third quarter\<close>
  "str_L234_2 =
   [CHR 0xE4, CHR 0xB8, CHR 0x89, CHR 0xE5, CHR 0xAD, CHR 0xA3, CHR 0xE5, CHR 0xBA,
   CHR 0xA6]"

definition str_L234_3 :: string where
  \<comment> \<open>line 234: fourth quarter\<close>
  "str_L234_3 =
   [CHR 0xE5, CHR 0x9B, CHR 0x9B, CHR 0xE5, CHR 0xAD, CHR 0xA3, CHR 0xE5, CHR 0xBA,
   CHR 0xA6]"

definition str_L241 :: string where
  \<comment> \<open>line 241: year 2024\<close>
  "str_L241 =
   ''2024'' @ [CHR 0xE5, CHR 0xB9, CHR 0xB4]"

definition str_L242 :: string where
  \<comment> \<open>line 242: year 2025\<close>
  "str_L242 =
   ''2025'' @ [CHR 0xE5, CHR 0xB9, CHR 0xB4]"

definition str_L260 :: string where
  \<comment> \<open>line 260: quarterly sales comparison\<close>
  "str_L260 =
   [CHR 0xE5, CHR 0xAD, CHR 0xA3, CHR 0xE5, CHR 0xBA, CHR 0xA6, CHR 0xE9, CHR 0x94,
   CHR 0x80, CHR 0xE5, CHR 0x94, CHR 0xAE, CHR 0xE9, CHR 0xA2, CHR 0x9D, CHR 0xE5, CHR 0xAF,
   CHR 0xB9, CHR 0xE6, CHR 0xAF, CHR 0x94]"

definition str_L272 :: string where
  \<comment> \<open>line 272: image example\<close>
  "str_L272 =
   [CHR 0xE5, CHR 0x9B, CHR 0xBE, CHR 0xE7, CHR 0x89, CHR 0x87, CHR 0xE7, CHR 0xA4,
   CHR 0xBA, CHR 0xE4, CHR 0xBE, CHR 0x8B]"

definition str_L280 :: string where
  \<comment> \<open>line 280: note: to add an image, you need an actual image file\<close>
  "str_L280 =
   [CHR 0xE6, CHR 0xB3, CHR 0xA8, CHR 0xE6, CHR 0x84, CHR 0x8F] @ '': '' @ [CHR 0xE8,
   CHR 0xA6, CHR 0x81, CHR 0xE6, CHR 0xB7, CHR 0xBB, CHR 0xE5, CHR 0x8A, CHR 0xA0, CHR 0xE5,
   CHR 0x9B, CHR 0xBE, CHR 0xE7, CHR 0x89, CHR 0x87, CHR 0xEF, CHR 0xBC, CHR 0x8C, CHR 0xE6,
   CHR 0x82, CHR 0xA8, CHR 0xE9, CHR 0x9C, CHR 0x80, CHR 0xE8, CHR 0xA6, CHR 0x81, CHR 0xE6,
   CHR 0x9C, CHR 0x89, CHR 0xE4, CHR 0xB8, CHR 0x80, CHR 0xE4, CHR 0xB8, CHR 0xAA, CHR 0xE5,
   CHR 0xAE, CHR 0x9E, CHR 0xE9, CHR 0x99, CHR 0x85, CHR 0xE7, CHR 0x9A, CHR 0x84, CHR 0xE5,
   CHR 0x9B, CHR 0xBE, CHR 0xE7, CHR 0x89, CHR 0x87, CHR 0xE6, CHR 0x96, CHR 0x87, CHR 0xE4,
   CHR 0xBB, CHR 0xB6]"

definition str_L294 :: string where
  \<comment> \<open>line 294: use the slide.shapes.add_picture() method to add an image\<close>
  "str_L294 =
   [CHR 0xE4, CHR 0xBD, CHR 0xBF, CHR 0xE7, CHR 0x94, CHR 0xA8]
   @ '' slide.shapes.add_picture() '' @ [CHR 0xE6, CHR 0x96, CHR 0xB9, CHR 0xE6, CHR 0xB3,
   CHR 0x95, CHR 0xE6, CHR 0xB7, CHR 0xBB, CHR 0xE5, CHR 0x8A, CHR 0xA0, CHR 0xE5, CHR 0x9B,
   CHR 0xBE, CHR 0xE7, CHR 0x89, CHR 0x87]"

definition str_L299 :: string where
  \<comment> \<open>line 299: position and size of the image can be given\<close>
  "str_L299 =
   [CHR 0xE5, CHR 0x8F, CHR 0xAF, CHR 0xE4, CHR 0xBB, CHR 0xA5, CHR 0xE6, CHR 0x8C,
   CHR 0x87, CHR 0xE5, CHR 0xAE, CHR 0x9A, CHR 0xE5, CHR 0x9B, CHR 0xBE, CHR 0xE7, CHR 0x89,
   CHR 0x87, CHR 0xE4, CHR 0xBD, CHR 0x8D, CHR 0xE7, CHR 0xBD, CHR 0xAE, CHR 0xE5, CHR 0x92,
   CHR 0x8C, CHR 0xE5, CHR 0xA4, CHR 0xA7, CHR 0xE5, CHR 0xB0, CHR 0x8F]"

definition str_L313 :: string where
  \<comment> \<open>line 313: in-memory image example\<close>
  "str_L313 =
   [CHR 0xE5, CHR 0x86, CHR 0x85, CHR 0xE5, CHR 0xAD, CHR 0x98, CHR 0xE5, CHR 0x9B,
   CHR 0xBE, CHR 0xE7, CHR 0x89, CHR 0x87, CHR 0xE7, CHR 0xA4, CHR 0xBA, CHR 0xE4, CHR 0xBE,
   CHR 0x8B]"

definition str_L341 :: string where
  \<comment> \<open>line 341: image generated in memory\<close>
  "str_L341 =
   [CHR 0xE5, CHR 0x86, CHR 0x85, CHR 0xE5, CHR 0xAD, CHR 0x98, CHR 0xE4, CHR 0xB8,
   CHR 0xAD, CHR 0xE7, CHR 0x94, CHR 0x9F, CHR 0xE6, CHR 0x88, CHR 0x90, CHR 0xE7, CHR 0x9A,
   CHR 0x84, CHR 0xE5, CHR 0x9B, CHR 0xBE, CHR 0xE7, CHR 0x89, CHR 0x87]"

definition str_L364 :: string where
  \<comment> \<open>line 364\<close>
  "str_L364 =
   [CHR 0xE4, CHR 0xBD, CHR 0xBF, CHR 0xE7, CHR 0x94, CHR 0xA8] @ ''BytesIO'' @ [CHR 0xE5,
   CHR 0x92, CHR 0x8C] @ ''PIL'' @ [CHR 0xE5, CHR 0x9C, CHR 0xA8, CHR 0xE5, CHR 0x86,
   CHR 0x85, CHR 0xE5, CHR 0xAD, CHR 0x98, CHR 0xE4, CHR 0xB8, CHR 0xAD, CHR 0xE7, CHR 0x94,
   CHR 0x9F, CHR 0xE6, CHR 0x88, CHR 0x90, CHR 0xE5, CHR 0xB9, CHR 0xB6, CHR 0xE6, CHR 0xB7,
   CHR 0xBB, CHR 0xE5, CHR 0x8A, CHR 0xA0, CHR 0xE5, CHR 0x9B, CHR 0xBE, CHR 0xE7, CHR 0x89,
   CHR 0x87]"

section \<open>Shapes, slides and the presentation\<close>

text \<open>
  Modelled from the spec: a slide layout is a predefined template; adding a slide from it
  gives the slide a copy of each placeholder of the layout, except its date, footer and
  slide-number placeholders. A placeholder has the \<open>idx\<close> of the layout placeholder it
  comes from; the title placeholder is the one with \<open>idx\<close> 0.
\<close>

datatype ph_type =
  PH_TITLE | PH_CENTER_TITLE | PH_SUBTITLE | PH_BODY | PH_OBJECT | PH_PICTURE
  | PH_DATE | PH_FOOTER | PH_SLIDE_NUMBER

datatype fill = FillInherited | FillSolid "RGBColor option"

datatype shape =
    Placeholder nat ph_type text_frame
  | TextBox int int int int text_frame
  | AutoShape MSO_SHAPE int int int int fill bool text_frame
  | TableFrame int int int int "table"
  | ChartFrame int int int int chart
  | Picture int int "int option" "int option" "string option" "encoded list"

text \<open>
  \<open>AutoShape t left top width height fill shadow_inherit text_frame\<close>;
  \<open>Picture left top width height filename blob\<close>, where the width and height are the ones
  the caller gave (the library scales the missing one from the bitmap) and the filename is
  \<open>None\<close> for a picture read from a stream.
\<close>

record SlideLayout =
  layout_name :: string
  layout_placeholders :: "(nat \<times> ph_type) list"

record slide =
  slide_layout :: SlideLayout
  shapes :: "shape list"

record presentation =
  slide_layouts :: "SlideLayout list"
  slides :: "slide list"

definition Presentation :: "SlideLayout list \<Rightarrow> presentation" where
  \<comment> \<open>\<^verbatim>\<open>Presentation()\<close>: the layouts of the library's default template, and no slide\<close>
  "Presentation template = \<lparr>slide_layouts = template, slides = []\<rparr>"

definition slide_layouts_getitem :: "presentation \<Rightarrow> nat \<Rightarrow> error + SlideLayout" where
  \<comment> \<open>\<^verbatim>\<open>prs.slide_layouts[i]\<close>\<close>
  "slide_layouts_getitem prs i =
     (if i < length (slide_layouts prs) then Inr (slide_layouts prs ! i) else Inl IndexError)"

definition cloneable :: "nat \<times> ph_type \<Rightarrow> bool" where
  "cloneable ph = (snd ph \<notin> {PH_DATE, PH_FOOTER, PH_SLIDE_NUMBER})"

definition new_slide :: "SlideLayout \<Rightarrow> slide" where
  "new_slide layout =
     \<lparr>slide_layout = layout,
      shapes = map (\<lambda>(idx, t). Placeholder idx t new_text_frame)
                 (filter cloneable (layout_placeholders layout))\<rparr>"

definition add_slide :: "SlideLayout \<Rightarrow> presentation \<Rightarrow> nat \<times> presentation" where
  \<comment> \<open>\<^verbatim>\<open>prs.slides.add_slide(layout)\<close>: the new slide goes last; the result names it by its
      position in \<open>slides\<close>\<close>
  "add_slide layout prs =
     (length (slides prs), prs\<lparr>slides := slides prs @ [new_slide layout]\<rparr>)"

definition with_slide ::
  "nat \<Rightarrow> (slide \<Rightarrow> (error + unit) \<times> slide) \<Rightarrow> presentation
     \<Rightarrow> (error + unit) \<times> presentation" where
  \<comment> \<open>the statements \<open>body\<close> run on the slide object held at position \<open>ref\<close>: the slide
      is the presentation's own, so what they do to it shows in the presentation, also when
      they raise\<close>
  "with_slide ref body prs =
     (let (r, slide) = body (slides prs ! ref)
      in (r, prs\<lparr>slides := (slides prs)[ref := slide]\<rparr>))"

subsection \<open>Shapes of a slide\<close>

text \<open>
  A shape is named by its position in \<open>shapes\<close>, a paragraph by its shape and its position
  in the text frame, a cell by its shape, row and column. The calls that add a shape return
  the position of the shape they added, so a name the script holds is always in range.
\<close>

fun is_placeholder :: "shape \<Rightarrow> bool" where
  "is_placeholder (Placeholder idx t tf) = True"
| "is_placeholder _ = False"

fun has_idx :: "nat \<Rightarrow> shape \<Rightarrow> bool" where
  "has_idx i (Placeholder idx t tf) = (idx = i)"
| "has_idx i _ = False"

fun find_index :: "('a \<Rightarrow> bool) \<Rightarrow> 'a list \<Rightarrow> nat option" where
  "find_index P [] = None"
| "find_index P (x # xs) =
     (if P x then Some 0 else map_option Suc (find_index P xs))"

definition shapes_title :: "slide \<Rightarrow> nat option" where
  \<comment> \<open>\<^verbatim>\<open>slide.shapes.title\<close>: the first placeholder with \<open>idx\<close> 0, or \<open>None\<close>\<close>
  "shapes_title slide = find_index (has_idx 0) (shapes slide)"

definition placeholders_len :: "slide \<Rightarrow> nat" where
  \<comment> \<open>\<^verbatim>\<open>len(slide.placeholders)\<close>\<close>
  "placeholders_len slide = length (filter is_placeholder (shapes slide))"

definition placeholders_getitem :: "slide \<Rightarrow> nat \<Rightarrow> error + nat" where
  \<comment> \<open>\<^verbatim>\<open>slide.placeholders[i]\<close>: \<open>i\<close> is the \<open>idx\<close> of a placeholder, not a position, and
      the library raises \<open>KeyError\<close> when no placeholder has it\<close>
  "placeholders_getitem slide i =
     (case find_index (has_idx i) (shapes slide) of
        None \<Rightarrow> Inl KeyError
      | Some ref \<Rightarrow> Inr ref)"

fun shape_text_frame :: "shape \<Rightarrow> text_frame option" where
  \<comment> \<open>\<^verbatim>\<open>getattr(shape, 'text_frame', None)\<close>\<close>
  "shape_text_frame (Placeholder idx t tf) = Some tf"
| "shape_text_frame (TextBox l t w h tf) = Some tf"
| "shape_text_frame (AutoShape s l t w h f sh tf) = Some tf"
| "shape_text_frame _ = None"

fun map_text_frame :: "(text_frame \<Rightarrow> text_frame) \<Rightarrow> shape \<Rightarrow> shape" where
  "map_text_frame g (Placeholder idx t tf) = Placeholder idx t (g tf)"
| "map_text_frame g (TextBox l t w h tf) = TextBox l t w h (g tf)"
| "map_text_frame g (AutoShape s l t w h f sh tf) = AutoShape s l t w h f sh (g tf)"
| "map_text_frame g sp = sp"

definition update_shape :: "nat \<Rightarrow> (shape \<Rightarrow> shape) \<Rightarrow> slide \<Rightarrow> slide" where
  "update_shape ref g slide = slide\<lparr>shapes := (shapes slide)[ref := g (shapes slide ! ref)]\<rparr>"

definition update_paragraph ::
  "nat \<Rightarrow> nat \<Rightarrow> (Paragraph \<Rightarrow> Paragraph) \<Rightarrow> slide \<Rightarrow> slide" where
  "update_paragraph ref i g slide =
     update_shape ref (map_text_frame (\<lambda>tf. tf[i := g (tf ! i)])) slide"

definition add_textbox :: "int \<Rightarrow> int \<Rightarrow> int \<Rightarrow> int \<Rightarrow> slide \<Rightarrow> nat \<times> slide" where
  \<comment> \<open>\<^verbatim>\<open>slide.shapes.add_textbox(left, top, width, height)\<close>\<close>
  "add_textbox x y cx cy slide =
     (length (shapes slide),
      slide\<lparr>shapes := shapes slide @ [TextBox x y cx cy new_text_frame]\<rparr>)"

definition add_shape ::
  "MSO_SHAPE \<Rightarrow> int \<Rightarrow> int \<Rightarrow> int \<Rightarrow> int \<Rightarrow> slide \<Rightarrow> nat \<times> slide" where
  \<comment> \<open>\<^verbatim>\<open>slide.shapes.add_shape(autoshape_type, left, top, width, height)\<close>\<close>
  "add_shape t x y cx cy slide =
     (length (shapes slide),
      slide\<lparr>shapes := shapes slide
         @ [AutoShape t x y cx cy FillInherited True new_text_frame]\<rparr>)"

definition add_table ::
  "nat \<Rightarrow> nat \<Rightarrow> int \<Rightarrow> int \<Rightarrow> int \<Rightarrow> int \<Rightarrow> slide \<Rightarrow> nat \<times> slide" where
  \<comment> \<open>\<^verbatim>\<open>slide.shapes.add_table(rows, cols, left, top, width, height)\<close>\<close>
  "add_table rows cols x y cx cy slide =
     (length (shapes slide),
      slide\<lparr>shapes := shapes slide @ [TableFrame x y cx cy (new_table rows cols)]\<rparr>)"

definition add_chart ::
  "XL_CHART_TYPE \<Rightarrow> int \<Rightarrow> int \<Rightarrow> int \<Rightarrow> int \<Rightarrow> chart_data \<Rightarrow> slide \<Rightarrow> nat \<times> slide" where
  \<comment> \<open>\<^verbatim>\<open>slide.shapes.add_chart(chart_type, x, y, cx, cy, chart_data)\<close>\<close>
  "add_chart t x y cx cy cd slide =
     (length (shapes slide),
      slide\<lparr>shapes := shapes slide
         @ [ChartFrame x y cx cy
              \<lparr>chart_type = t, chart_categories = cd_categories cd,
               chart_series = cd_series cd, chart_title = None\<rparr>]\<rparr>)"

definition add_picture ::
  "BytesIO \<Rightarrow> int \<Rightarrow> int \<Rightarrow> int option \<Rightarrow> int option \<Rightarrow> slide \<Rightarrow> nat \<times> slide" where
  \<comment> \<open>\<^verbatim>\<open>slide.shapes.add_picture(image_file, left, top, width=None, height=None)\<close> for a
      file-like \<open>image_file\<close>, the only kind the script passes (a path would be a string):
      the library rewinds the stream, reads all of it, and records no filename\<close>
  "add_picture image_file x y cx cy slide =
     (length (shapes slide),
      slide\<lparr>shapes := shapes slide
         @ [Picture x y cx cy None (read_all (seek 0 image_file))]\<rparr>)"

subsection \<open>Setters\<close>

definition set_shape_text :: "nat \<Rightarrow> string \<Rightarrow> slide \<Rightarrow> slide" where
  \<comment> \<open>\<^verbatim>\<open>shape.text = text\<close> and \<^verbatim>\<open>shape.text_frame.text = text\<close>\<close>
  "set_shape_text ref text slide =
     update_shape ref (map_text_frame (text_frame_set_text text)) slide"

definition add_paragraph :: "nat \<Rightarrow> slide \<Rightarrow> nat \<times> slide" where
  \<comment> \<open>\<^verbatim>\<open>tf.add_paragraph()\<close> on the text frame of shape \<open>ref\<close>\<close>
  "add_paragraph ref slide =
     (case shape_text_frame (shapes slide ! ref) of
        None \<Rightarrow> (0, slide)
      | Some tf \<Rightarrow>
          (length tf, update_shape ref (map_text_frame (\<lambda>tf. tf @ [new_paragraph])) slide))"

definition set_text :: "nat \<Rightarrow> nat \<Rightarrow> string \<Rightarrow> slide \<Rightarrow> slide" where
  \<comment> \<open>\<^verbatim>\<open>p.text = text\<close>\<close>
  "set_text ref p text slide = update_paragraph ref p (paragraph_set_text text) slide"

definition set_level :: "nat \<Rightarrow> nat \<Rightarrow> nat \<Rightarrow> slide \<Rightarrow> slide" where
  \<comment> \<open>\<^verbatim>\<open>p.level = n\<close>\<close>
  "set_level ref p n slide = update_paragraph ref p (\<lambda>q. q\<lparr>p_level := n\<rparr>) slide"

definition set_font_size :: "nat \<Rightarrow> nat \<Rightarrow> int \<Rightarrow> slide \<Rightarrow> slide" where
  \<comment> \<open>\<^verbatim>\<open>p.font.size = n\<close>\<close>
  "set_font_size ref p n slide =
     update_paragraph ref p (\<lambda>q. q\<lparr>p_font := (p_font q)\<lparr>font_size := Some n\<rparr>\<rparr>) slide"

definition set_font_bold :: "nat \<Rightarrow> nat \<Rightarrow> bool \<Rightarrow> slide \<Rightarrow> slide" where
  \<comment> \<open>\<^verbatim>\<open>p.font.bold = b\<close>\<close>
  "set_font_bold ref p b slide =
     update_paragraph ref p (\<lambda>q. q\<lparr>p_font := (p_font q)\<lparr>font_bold := Some b\<rparr>\<rparr>) slide"

definition set_font_italic :: "nat \<Rightarrow> nat \<Rightarrow> bool \<Rightarrow> slide \<Rightarrow> slide" where
  \<comment> \<open>\<^verbatim>\<open>p.font.italic = b\<close>\<close>
  "set_font_italic ref p b slide =
     update_paragraph ref p (\<lambda>q. q\<lparr>p_font := (p_font q)\<lparr>font_italic := Some b\<rparr>\<rparr>) slide"

definition set_alignment :: "nat \<Rightarrow> nat \<Rightarrow> PP_ALIGN \<Rightarrow> slide \<Rightarrow> slide" where
  \<comment> \<open>\<^verbatim>\<open>p.alignment = a\<close>\<close>
  "set_alignment ref p a slide =
     update_paragraph ref p (\<lambda>q. q\<lparr>p_alignment := Some a\<rparr>) slide"

fun map_fill :: "(fill \<Rightarrow> fill) \<Rightarrow> shape \<Rightarrow> shape" where
  "map_fill g (AutoShape s l t w h f sh tf) = AutoShape s l t w h (g f) sh tf"
| "map_fill g sp = sp"

fun shape_fill :: "shape \<Rightarrow> fill" where
  "shape_fill (AutoShape s l t w h f sh tf) = f"
| "shape_fill sp = FillInherited"

definition fill_solid :: "nat \<Rightarrow> slide \<Rightarrow> slide" where
  \<comment> \<open>\<^verbatim>\<open>shape.fill.solid()\<close>: a solid fill stays, any other becomes a solid fill with no
      colour yet\<close>
  "fill_solid ref slide =
     update_shape ref
       (map_fill (\<lambda>f. case f of FillSolid c \<Rightarrow> FillSolid c | FillInherited \<Rightarrow> FillSolid None))
       slide"

definition set_fore_color_rgb :: "nat \<Rightarrow> RGBColor \<Rightarrow> slide \<Rightarrow> error + slide" where
  \<comment> \<open>\<^verbatim>\<open>shape.fill.fore_color.rgb = c\<close>: a fill that is not solid has no foreground
      colour, and the library raises \<open>TypeError\<close>\<close>
  "set_fore_color_rgb ref c slide =
     (case shape_fill (shapes slide ! ref) of
        FillInherited \<Rightarrow> Inl TypeError
      | FillSolid old \<Rightarrow> Inr (update_shape ref (map_fill (\<lambda>f. FillSolid (Some c))) slide))"

fun map_shadow_inherit :: "(bool \<Rightarrow> bool) \<Rightarrow> shape \<Rightarrow> shape" where
  "map_shadow_inherit g (AutoShape s l t w h f sh tf) = AutoShape s l t w h f (g sh) tf"
| "map_shadow_inherit g sp = sp"

definition set_shadow_inherit :: "nat \<Rightarrow> bool \<Rightarrow> slide \<Rightarrow> slide" where
  \<comment> \<open>\<^verbatim>\<open>shape.shadow.inherit = b\<close>\<close>
  "set_shadow_inherit ref b slide = update_shape ref (map_shadow_inherit (\<lambda>old. b)) slide"

subsection \<open>Cells of a table\<close>

fun shape_table :: "shape \<Rightarrow> table" where
  "shape_table (TableFrame l t w h tbl) = tbl"
| "shape_table sp = []"

fun map_table :: "(table \<Rightarrow> table) \<Rightarrow> shape \<Rightarrow> shape" where
  "map_table g (TableFrame l t w h tbl) = TableFrame l t w h (g tbl)"
| "map_table g sp = sp"

definition table_cell :: "nat \<Rightarrow> nat \<Rightarrow> nat \<Rightarrow> slide \<Rightarrow> error + (nat \<times> nat \<times> nat)" where
  \<comment> \<open>\<^verbatim>\<open>table.cell(row_idx, col_idx)\<close> on the table of shape \<open>ref\<close>\<close>
  "table_cell ref row_idx col_idx slide =
     (let tbl = shape_table (shapes slide ! ref)
      in if row_idx < length tbl \<and> col_idx < length (tbl ! row_idx)
         then Inr (ref, row_idx, col_idx) else Inl IndexError)"

definition update_cell ::
  "nat \<times> nat \<times> nat \<Rightarrow> (text_frame \<Rightarrow> text_frame) \<Rightarrow> slide \<Rightarrow> slide" where
  "update_cell cell g slide =
     (case cell of (ref, r, c) \<Rightarrow>
        update_shape ref (map_table (\<lambda>tbl. tbl[r := (tbl ! r)[c := g (tbl ! r ! c)]])) slide)"

definition set_cell_text :: "nat \<times> nat \<times> nat \<Rightarrow> string \<Rightarrow> slide \<Rightarrow> slide" where
  \<comment> \<open>\<^verbatim>\<open>cell.text = text\<close>\<close>
  "set_cell_text cell text slide = update_cell cell (text_frame_set_text text) slide"

definition set_cell_font_bold :: "nat \<times> nat \<times> nat \<Rightarrow> nat \<Rightarrow> bool \<Rightarrow> slide \<Rightarrow> slide" where
  \<comment> \<open>\<^verbatim>\<open>cell.text_frame.paragraphs[i].font.bold = b\<close>\<close>
  "set_cell_font_bold cell i b slide =
     update_cell cell (\<lambda>tf. tf[i := (tf ! i)\<lparr>p_font := (p_font (tf ! i))\<lparr>font_bold := Some b\<rparr>\<rparr>])
       slide"

definition set_cell_font_size :: "nat \<times> nat \<times> nat \<Rightarrow> nat \<Rightarrow> int \<Rightarrow> slide \<Rightarrow> slide" where
  \<comment> \<open>\<^verbatim>\<open>cell.text_frame.paragraphs[i].font.size = n\<close>\<close>
  "set_cell_font_size cell i n slide =
     update_cell cell (\<lambda>tf. tf[i := (tf ! i)\<lparr>p_font := (p_font (tf ! i))\<lparr>font_size := Some n\<rparr>\<rparr>])
       slide"

subsection \<open>The chart of a graphic frame\<close>

fun shape_chart :: "shape \<Rightarrow> chart option" where
  \<comment> \<open>\<^verbatim>\<open>getattr(shape, 'chart', None)\<close>\<close>
  "shape_chart (ChartFrame x y cx cy ch) = Some ch"
| "shape_chart sp = None"

fun map_chart :: "(chart \<Rightarrow> chart) \<Rightarrow> shape \<Rightarrow> shape" where
  "map_chart g (ChartFrame x y cx cy ch) = ChartFrame x y cx cy (g ch)"
| "map_chart g sp = sp"

definition set_has_title :: "nat \<Rightarrow> bool \<Rightarrow> slide \<Rightarrow> slide" where
  \<comment> \<open>\<^verbatim>\<open>chart.has_title = b\<close>: a title is made when there is none, or the title removed\<close>
  "set_has_title ref b slide =
     update_shape ref
       (map_chart (\<lambda>ch. ch\<lparr>chart_title :=
          (if b then (case chart_title ch of None \<Rightarrow> Some new_text_frame | Some tf \<Rightarrow> Some tf)
           else None)\<rparr>))
       slide"

definition set_chart_title_text :: "nat \<Rightarrow> string \<Rightarrow> slide \<Rightarrow> slide" where
  \<comment> \<open>\<^verbatim>\<open>chart.chart_title.text_frame.text = text\<close>: reading \<open>chart_title\<close> makes the title
      when there is none\<close>
  "set_chart_title_text ref text slide =
     update_shape ref
       (map_chart (\<lambda>ch. ch\<lparr>chart_title :=
          Some (text_frame_set_text text
                  (case chart_title ch of None \<Rightarrow> new_text_frame | Some tf \<Rightarrow> tf))\<rparr>))
       slide"

section \<open>The clock, paths and the file system\<close>

text \<open>
  What the script reads from and writes to its surroundings is a record: the path of the
  script (\<^verbatim>\<open>__file__\<close>), the reading of the clock, the layouts of the library's default
  template, the command line and the environment, the files, and the standard output.
\<close>

record datetime =
  year :: nat
  month :: nat
  day :: nat
  hour :: nat
  minute :: nat
  second :: nat

definition digit :: "nat \<Rightarrow> char" where
  "digit n = ''0123456789'' ! (n mod 10)"

fun decimal :: "nat \<Rightarrow> nat \<Rightarrow> string" where
  \<comment> \<open>the last \<open>w\<close> decimal digits of \<open>n\<close>, with leading zeros\<close>
  "decimal 0 n = []"
| "decimal (Suc w) n = decimal w (n div 10) @ [digit n]"

fun strftime :: "string \<Rightarrow> datetime \<Rightarrow> string" where
  \<comment> \<open>\<^verbatim>\<open>dt.strftime(fmt)\<close> for the directives of a date and a time of day; a year has four
      digits, as a \<open>datetime\<close> keeps it between 1 and 9999\<close>
  "strftime [] dt = []"
| "strftime [c] dt = [c]"
| "strftime (c # d # fmt) dt =
     (if c = CHR ''%'' then
        (if d = CHR ''Y'' then decimal 4 (year dt) @ strftime fmt dt
         else if d = CHR ''m'' then decimal 2 (month dt) @ strftime fmt dt
         else if d = CHR ''d'' then decimal 2 (day dt) @ strftime fmt dt
         else if d = CHR ''H'' then decimal 2 (hour dt) @ strftime fmt dt
         else if d = CHR ''M'' then decimal 2 (minute dt) @ strftime fmt dt
         else if d = CHR ''S'' then decimal 2 (second dt) @ strftime fmt dt
         else if d = CHR ''%'' then CHR ''%'' # strftime fmt dt
         else c # d # strftime fmt dt)
      else c # strftime (d # fmt) dt)"

definition os_path_dirname :: "string \<Rightarrow> string" where
  \<comment> \<open>\<^verbatim>\<open>posixpath.dirname\<close>: up to the last slash, and without trailing slashes unless
      there is nothing else\<close>
  "os_path_dirname p =
     (let head = rev (dropWhile (\<lambda>c. c \<noteq> CHR ''/'') (rev p))
      in if head \<noteq> [] \<and> head \<noteq> replicate (length head) (CHR ''/'')
         then rev (dropWhile (\<lambda>c. c = CHR ''/'') (rev head))
         else head)"

definition os_path_join :: "string \<Rightarrow> string \<Rightarrow> string" where
  \<comment> \<open>\<^verbatim>\<open>posixpath.join\<close> of two components\<close>
  "os_path_join a b =
     (if b \<noteq> [] \<and> hd b = CHR ''/'' then b
      else if a = [] \<or> last a = CHR ''/'' then a @ b
      else a @ CHR ''/'' # b)"

datatype file_content = PptxFile presentation | OtherFile string

record world =
  w_file :: string
  w_clock :: datetime
  w_template :: "SlideLayout list"
  w_argv :: "string list"
  w_environ :: "(string \<times> string) list"
  w_writable :: "string \<Rightarrow> bool"
  w_files :: "string \<Rightarrow> file_content option"
  w_stdout :: "string list"

definition save :: "presentation \<Rightarrow> string \<Rightarrow> world \<Rightarrow> error + world" where
  \<comment> \<open>\<^verbatim>\<open>prs.save(path)\<close>. Modelled from the spec: the document model is serialised to the
      file; the container format is the library's, so the file holds the document model.
      Where the system refuses the write the call raises and no file changes\<close>
  "save prs path w =
     (if w_writable w path then Inr (w\<lparr>w_files := (w_files w)(path \<mapsto> PptxFile prs)\<rparr>)
      else Inl OSError)"

definition print :: "string \<Rightarrow> world \<Rightarrow> world" where
  "print line w = w\<lparr>w_stdout := w_stdout w @ [line]\<rparr>"

section \<open>The slide procedures\<close>

text \<open>
  Each procedure looks a layout up, adds a slide from it, and then works on that slide only.
  The statements after \<^verbatim>\<open>add_slide\<close> are the procedure's \<open>_body\<close>, a function of the slide;
  what the procedure returns is the pair of \<open>Inr ()\<close> (Python's \<open>None\<close>) or the exception
  raised, and the presentation.
\<close>

definition title_slide_body :: "datetime \<Rightarrow> slide \<Rightarrow> (error + unit) \<times> slide" where
  \<comment> \<open>lines 67 to 77; \<open>now\<close> is what \<^verbatim>\<open>datetime.now()\<close> returns\<close>
  "title_slide_body now slide =
     (let title = shapes_title slide;
          slide = (case title of
                     None \<Rightarrow> slide
                   | Some title \<Rightarrow> set_shape_text title str_L71 slide)
      in if 1 < placeholders_len slide then
           (case placeholders_getitem slide 1 of
              Inl e \<Rightarrow> (Inl e, slide)
            | Inr subtitle \<Rightarrow>
                (Inr (),
                 set_shape_text subtitle
                   (str_L77_head @ strftime ''%Y-%m-%d'' now @ str_L77_tail) slide))
         else (Inr (), slide))"

definition create_title_slide ::
  "datetime \<Rightarrow> presentation \<Rightarrow> (error + unit) \<times> presentation" where
  "create_title_slide now prs =
     (case slide_layouts_getitem prs 0 of
        Inl e \<Rightarrow> (Inl e, prs)
      | Inr title_slide_layout \<Rightarrow>
          (let (slide, prs) = add_slide title_slide_layout prs
           in with_slide slide (title_slide_body now) prs))"

definition content_slide_body :: "slide \<Rightarrow> (error + unit) \<times> slide" where
  \<comment> \<open>lines 85 to 126; \<open>tf\<close> names the text frame by its shape\<close>
  "content_slide_body slide =
     (let title = shapes_title slide;
          slide = (case title of
                     None \<Rightarrow> slide
                   | Some title \<Rightarrow> set_shape_text title str_L89 slide)
      in case (if 1 < placeholders_len slide then
                 (case placeholders_getitem slide 1 of
                    Inl e \<Rightarrow> Inl e
                  | Inr content \<Rightarrow>
                      Inr (case shape_text_frame (shapes slide ! content) of
                             None \<Rightarrow> None
                           | Some frame \<Rightarrow> Some content))
               else Inr None) of
           Inl e \<Rightarrow> (Inl e, slide)
         | Inr None \<Rightarrow> (Inr (), slide)
         | Inr (Some tf) \<Rightarrow>
             (let slide = set_shape_text tf str_L101 slide;
                  (p, slide) = add_paragraph tf slide;
                  slide = set_text tf p str_L105 slide;
                  slide = set_level tf p 1 slide;
                  (p, slide) = add_paragraph tf slide;
                  slide = set_text tf p str_L110 slide;
                  slide = set_level tf p 1 slide;
                  (p, slide) = add_paragraph tf slide;
                  slide = set_text tf p str_L115 slide;
                  slide = set_level tf p 1 slide;
                  (p, slide) = add_paragraph tf slide;
                  slide = set_text tf p str_L120 slide;
                  slide = set_level tf p 1 slide;
                  (p, slide) = add_paragraph tf slide;
                  slide = set_text tf p str_L125 slide;
                  slide = set_level tf p 1 slide
              in (Inr (), slide)))"

definition create_content_slide :: "presentation \<Rightarrow> (error + unit) \<times> presentation" where
  "create_content_slide prs =
     (case slide_layouts_getitem prs 1 of
        Inl e \<Rightarrow> (Inl e, prs)
      | Inr bullet_slide_layout \<Rightarrow>
          (let (slide, prs) = add_slide bullet_slide_layout prs
           in with_slide slide content_slide_body prs))"

definition shapes_slide_body :: "slide \<Rightarrow> (error + unit) \<times> slide" where
  \<comment> \<open>lines 135 to 169\<close>
  "shapes_slide_body slide =
     (let (title, slide) = add_textbox (Inches 1) (Inches 0.5) (Inches 8) (Inches 1) slide;
          tf = title;
          (p, slide) = add_paragraph tf slide;
          slide = set_text tf p str_L140 slide;
          slide = set_font_size tf p (Pt 40) slide;
          slide = set_font_bold tf p True slide;
          slide = set_alignment tf p CENTER slide;
          (shape, slide) = add_shape RECTANGLE (Inches 1) (Inches 2) (Inches 2) (Inches 1) slide;
          slide = fill_solid shape slide
      in case set_fore_color_rgb shape (RGBColor 255 0 0) slide of
           Inl e \<Rightarrow> (Inl e, slide)
         | Inr slide \<Rightarrow>
     (let slide = set_shadow_inherit shape False slide;
          (shape, slide) = add_shape OVAL (Inches 4) (Inches 2) (Inches 2) (Inches 1) slide;
          slide = fill_solid shape slide
      in case set_fore_color_rgb shape (RGBColor 0 255 0) slide of
           Inl e \<Rightarrow> (Inl e, slide)
         | Inr slide \<Rightarrow>
     (let (shape, slide) =
            add_shape STAR_5_POINT (Inches 2.5) (Inches 4) (Inches 2) (Inches 2) slide;
          slide = fill_solid shape slide
      in case set_fore_color_rgb shape (RGBColor 255 255 0) slide of
           Inl e \<Rightarrow> (Inl e, slide)
         | Inr slide \<Rightarrow>
     (let (shape, slide) = add_shape HEART (Inches 5.5) (Inches 4) (Inches 2) (Inches 2) slide;
          slide = fill_solid shape slide
      in case set_fore_color_rgb shape (RGBColor 255 0 255) slide of
           Inl e \<Rightarrow> (Inl e, slide)
         | Inr slide \<Rightarrow> (Inr (), slide)))))"

definition create_shapes_slide :: "presentation \<Rightarrow> (error + unit) \<times> presentation" where
  "create_shapes_slide prs =
     (case slide_layouts_getitem prs 6 of
        Inl e \<Rightarrow> (Inl e, prs)
      | Inr blank_slide_layout \<Rightarrow>
          (let (slide, prs) = add_slide blank_slide_layout prs
           in with_slide slide shapes_slide_body prs))"

definition headers :: "string list" where
  \<comment> \<open>line 197\<close>
  "headers = [str_L197_0, str_L197_1, str_L197_2]"

definition data :: "string list list" where
  \<comment> \<open>lines 205 to 209\<close>
  "data = [[str_L206_0, str_L206_1, str_L206_2],
           [str_L207_0, str_L207_1, str_L207_2],
           [str_L208_0, str_L208_1, str_L208_2]]"

fun header_loop :: "nat \<Rightarrow> (nat \<times> string) list \<Rightarrow> slide \<Rightarrow> (error + unit) \<times> slide" where
  \<comment> \<open>lines 198 to 202, over what is left of \<^verbatim>\<open>enumerate(headers)\<close>\<close>
  "header_loop table [] slide = (Inr (), slide)"
| "header_loop table ((i, header) # rest) slide =
     (case table_cell table 0 i slide of
        Inl e \<Rightarrow> (Inl e, slide)
      | Inr cell \<Rightarrow>
          (let slide = set_cell_text cell header slide;
               slide = set_cell_font_bold cell 0 True slide;
               slide = set_cell_font_size cell 0 (Pt 14) slide
           in header_loop table rest slide))"

fun cell_loop ::
  "nat \<Rightarrow> nat \<Rightarrow> (nat \<times> string) list \<Rightarrow> slide \<Rightarrow> (error + unit) \<times> slide" where
  \<comment> \<open>lines 212 to 214, over what is left of \<^verbatim>\<open>enumerate(row_data)\<close>\<close>
  "cell_loop table row_idx [] slide = (Inr (), slide)"
| "cell_loop table row_idx ((col_idx, cell_text) # rest) slide =
     (case table_cell table (row_idx + 1) col_idx slide of
        Inl e \<Rightarrow> (Inl e, slide)
      | Inr cell \<Rightarrow>
          (let slide = set_cell_text cell cell_text slide
           in cell_loop table row_idx rest slide))"

fun row_loop :: "nat \<Rightarrow> (nat \<times> string list) list \<Rightarrow> slide \<Rightarrow> (error + unit) \<times> slide" where
  \<comment> \<open>lines 211 to 214, over what is left of \<^verbatim>\<open>enumerate(data)\<close>\<close>
  "row_loop table [] slide = (Inr (), slide)"
| "row_loop table ((row_idx, row_data) # rest) slide =
     (case cell_loop table row_idx (enumerate 0 row_data) slide of
        (Inl e, slide) \<Rightarrow> (Inl e, slide)
      | (Inr u, slide) \<Rightarrow> row_loop table rest slide)"

definition table_slide_body :: "slide \<Rightarrow> (error + unit) \<times> slide" where
  \<comment> \<open>lines 177 to 214; \<open>table\<close> names the table by its graphic frame\<close>
  "table_slide_body slide =
     (let (title, slide) = add_textbox (Inches 1) (Inches 0.5) (Inches 8) (Inches 1) slide;
          tf = title;
          (p, slide) = add_paragraph tf slide;
          slide = set_text tf p str_L182 slide;
          slide = set_font_size tf p (Pt 40) slide;
          slide = set_font_bold tf p True slide;
          slide = set_alignment tf p CENTER slide;
          (rows, cols) = (4, 3);
          left = Inches 2;
          top = Inches 2;
          width = Inches 6;
          height = Inches 2;
          (table, slide) = add_table rows cols left top width height slide
      in case header_loop table (enumerate 0 headers) slide of
           (Inl e, slide) \<Rightarrow> (Inl e, slide)
         | (Inr u, slide) \<Rightarrow> row_loop table (enumerate 0 data) slide)"

definition create_table_slide :: "presentation \<Rightarrow> (error + unit) \<times> presentation" where
  "create_table_slide prs =
     (case slide_layouts_getitem prs 6 of
        Inl e \<Rightarrow> (Inl e, prs)
      | Inr blank_slide_layout \<Rightarrow>
          (let (slide, prs) = add_slide blank_slide_layout prs
           in with_slide slide table_slide_body prs))"

definition chart_attributes :: "string list" where
  \<comment> \<open>Modelled from the spec: attributes of the library's chart object that the script
      asks for with \<^verbatim>\<open>hasattr\<close>, among its others\<close>
  "chart_attributes = [''chart_title'', ''chart_type'', ''has_legend'', ''has_title'', ''plots'']"

definition chart_title_attributes :: "string list" where
  "chart_title_attributes = [''format'', ''has_text_frame'', ''text_frame'']"

definition chart_slide_body :: "slide \<Rightarrow> (error + unit) \<times> slide" where
  \<comment> \<open>lines 222 to 260; \<open>chart_data_any\<close> and \<open>chart_data_typed\<close> are the object
      \<open>chart_data\<close> under other names, and \<open>chart\<close> names the chart by its graphic frame\<close>
  "chart_slide_body slide =
     (let (title, slide) = add_textbox (Inches 1) (Inches 0.5) (Inches 8) (Inches 1) slide;
          tf = title;
          (p, slide) = add_paragraph tf slide;
          slide = set_text tf p str_L227 slide;
          slide = set_font_size tf p (Pt 40) slide;
          slide = set_font_bold tf p True slide;
          slide = set_alignment tf p CENTER slide;
          chart_data = CategoryChartData;
          chart_data = chart_data\<lparr>cd_categories :=
                         [str_L234_0, str_L234_1, str_L234_2, str_L234_3]\<rparr>;
          chart_data = add_series str_L241 [8.5, 10.2, 12.5, 9.8] chart_data;
          chart_data = add_series str_L242 [10.2, 11.5, 13.8, 11.2] chart_data;
          (x, y, cx, cy) = (Inches 1.5, Inches 2, Inches 7, Inches 5);
          (shape, slide) = add_chart COLUMN_CLUSTERED x y cx cy chart_data slide;
          chart = (case shape_chart (shapes slide ! shape) of
                     None \<Rightarrow> None
                   | Some ch \<Rightarrow> Some shape)
      in case chart of
           None \<Rightarrow> (Inr (), slide)
         | Some chart \<Rightarrow>
             if ''has_title'' \<in> set chart_attributes then
               (let slide = set_has_title chart True slide
                in if ''chart_title'' \<in> set chart_attributes
                      \<and> ''text_frame'' \<in> set chart_title_attributes
                   then (Inr (), set_chart_title_text chart str_L260 slide)
                   else (Inr (), slide))
             else (Inr (), slide))"

definition create_chart_slide :: "presentation \<Rightarrow> (error + unit) \<times> presentation" where
  "create_chart_slide prs =
     (case slide_layouts_getitem prs 6 of
        Inl e \<Rightarrow> (Inl e, prs)
      | Inr blank_slide_layout \<Rightarrow>
          (let (slide, prs) = add_slide blank_slide_layout prs
           in with_slide slide chart_slide_body prs))"

definition image_slide_body :: "slide \<Rightarrow> (error + unit) \<times> slide" where
  \<comment> \<open>lines 268 to 301; the string of lines 284 to 288 is an expression statement and does
      nothing\<close>
  "image_slide_body slide =
     (let (title, slide) = add_textbox (Inches 1) (Inches 0.5) (Inches 8) (Inches 1) slide;
          tf = title;
          (p, slide) = add_paragraph tf slide;
          slide = set_text tf p str_L272 slide;
          slide = set_font_size tf p (Pt 40) slide;
          slide = set_font_bold tf p True slide;
          slide = set_alignment tf p CENTER slide;
          (textbox, slide) = add_textbox (Inches 1) (Inches 2) (Inches 8) (Inches 1) slide;
          tf = textbox;
          slide = set_shape_text tf str_L280 slide;
          slide = set_font_italic tf 0 True slide;
          (textbox, slide) = add_textbox (Inches 1) (Inches 4) (Inches 8) (Inches 2) slide;
          tf = textbox;
          (p, slide) = add_paragraph tf slide;
          slide = set_text tf p str_L294 slide;
          slide = set_font_size tf p (Pt 20) slide;
          slide = set_alignment tf p CENTER slide;
          (p, slide) = add_paragraph tf slide;
          slide = set_text tf p str_L299 slide;
          slide = set_font_size tf p (Pt 16) slide;
          slide = set_alignment tf p CENTER slide
      in (Inr (), slide))"

definition create_image_slide :: "presentation \<Rightarrow> (error + unit) \<times> presentation" where
  "create_image_slide prs =
     (case slide_layouts_getitem prs 6 of
        Inl e \<Rightarrow> (Inl e, prs)
      | Inr blank_slide_layout \<Rightarrow>
          (let (slide, prs) = add_slide blank_slide_layout prs
           in with_slide slide image_slide_body prs))"

definition image_slide_v2_body :: "slide \<Rightarrow> (error + unit) \<times> slide" where
  \<comment> \<open>lines 308 to 366; \<open>draw\<close> draws on \<open>img\<close>\<close>
  "image_slide_v2_body slide =
     (let (title, slide) = add_textbox (Inches 1) (Inches 0.5) (Inches 8) (Inches 1) slide;
          tf = title;
          (p, slide) = add_paragraph tf slide;
          slide = set_text tf p str_L313 slide;
          slide = set_font_size tf p (Pt 40) slide;
          slide = set_font_bold tf p True slide;
          slide = set_alignment tf p CENTER slide;
          img = Image_new ''RGB'' (500, 300) ''white'';
          img = draw_rectangle [(20, 20), (480, 280)] None (Some ''blue'') 5 img;
          img = draw_rectangle [(100, 100), (400, 200)]
                  (Some ''lightblue'') (Some ''darkblue'') 2 img;
          img = draw_text (250, 150) str_L341 (Some ''black'') (Some ''mm'') img;
          img_byte_arr = new_BytesIO;
          img_byte_arr = image_save img ''PNG'' img_byte_arr;
          img_byte_arr = seek 0 img_byte_arr;
          (picture, slide) =
            add_picture img_byte_arr (Inches 2) (Inches 2.5) (Some (Inches 6)) None slide;
          (textbox, slide) = add_textbox (Inches 1) (Inches 6) (Inches 8) (Inches 1) slide;
          tf = textbox;
          (p, slide) = add_paragraph tf slide;
          slide = set_text tf p str_L364 slide;
          slide = set_font_size tf p (Pt 16) slide;
          slide = set_alignment tf p CENTER slide
      in (Inr (), slide))"

definition create_image_slide_v2 :: "presentation \<Rightarrow> (error + unit) \<times> presentation" where
  "create_image_slide_v2 prs =
     (case slide_layouts_getitem prs 6 of
        Inl e \<Rightarrow> (Inl e, prs)
      | Inr blank_slide_layout \<Rightarrow>
          (let (slide, prs) = add_slide blank_slide_layout prs
           in with_slide slide image_slide_v2_body prs))"

section \<open>The program\<close>

definition main :: "world \<Rightarrow> (error + unit) \<times> world" where
  \<comment> \<open>lines 30 to 59; \<open>prs\<close> is local, so a raise leaves the world as it was\<close>
  "main w =
     (let prs = Presentation (w_template w) in
      case create_title_slide (w_clock w) prs of (Inl e, prs) \<Rightarrow> (Inl e, w) | (Inr u, prs) \<Rightarrow>
      case create_content_slide prs of (Inl e, prs) \<Rightarrow> (Inl e, w) | (Inr u, prs) \<Rightarrow>
      case create_shapes_slide prs of (Inl e, prs) \<Rightarrow> (Inl e, w) | (Inr u, prs) \<Rightarrow>
      case create_table_slide prs of (Inl e, prs) \<Rightarrow> (Inl e, w) | (Inr u, prs) \<Rightarrow>
      case create_chart_slide prs of (Inl e, prs) \<Rightarrow> (Inl e, w) | (Inr u, prs) \<Rightarrow>
      case create_image_slide prs of (Inl e, prs) \<Rightarrow> (Inl e, w) | (Inr u, prs) \<Rightarrow>
      case create_image_slide_v2 prs of (Inl e, prs) \<Rightarrow> (Inl e, w) | (Inr u, prs) \<Rightarrow>
      (let output_file = os_path_join (os_path_dirname (w_file w)) ''sample_presentation.pptx''
       in case save prs output_file w of
            Inl e \<Rightarrow> (Inl e, w)
          | Inr w \<Rightarrow> (Inr (), print (str_L59 @ output_file) w)))"

section \<open>A default template and a world to run in\<close>

definition footers :: "(nat \<times> ph_type) list" where
  "footers = [(10, PH_DATE), (11, PH_FOOTER), (12, PH_SLIDE_NUMBER)]"

definition default_template :: "SlideLayout list" where
  \<comment> \<open>Modelled from the spec: the template file of the library is not under \<^verbatim>\<open>src/\<close>. The
      script's comments call layout 0 the title layout, layout 1 the bulleted layout and
      layout 6 the blank layout; these are the eleven layouts of the stock template, with
      the placeholders of each\<close>
  "default_template =
     [\<lparr>layout_name = ''Title Slide'',
       layout_placeholders = [(0, PH_CENTER_TITLE), (1, PH_SUBTITLE)] @ footers\<rparr>,
      \<lparr>layout_name = ''Title and Content'',
       layout_placeholders = [(0, PH_TITLE), (1, PH_OBJECT)] @ footers\<rparr>,
      \<lparr>layout_name = ''Section Header'',
       layout_placeholders = [(0, PH_TITLE), (1, PH_BODY)] @ footers\<rparr>,
      \<lparr>layout_name = ''Two Content'',
       layout_placeholders = [(0, PH_TITLE), (1, PH_OBJECT), (2, PH_OBJECT)] @ footers\<rparr>,
      \<lparr>layout_name = ''Comparison'',
       layout_placeholders =
         [(0, PH_TITLE), (1, PH_BODY), (2, PH_OBJECT), (3, PH_BODY), (4, PH_OBJECT)]
         @ footers\<rparr>,
      \<lparr>layout_name = ''Title Only'',
       layout_placeholders = [(0, PH_TITLE)] @ footers\<rparr>,
      \<lparr>layout_name = ''Blank'',
       layout_placeholders = footers\<rparr>,
      \<lparr>layout_name = ''Content with Caption'',
       layout_placeholders = [(0, PH_TITLE), (1, PH_OBJECT), (2, PH_BODY)] @ footers\<rparr>,
      \<lparr>layout_name = ''Picture with Caption'',
       layout_placeholders = [(0, PH_TITLE), (1, PH_PICTURE), (2, PH_BODY)] @ footers\<rparr>,
      \<lparr>layout_name = ''Title and Vertical Text'',
       layout_placeholders = [(0, PH_TITLE), (1, PH_BODY)] @ footers\<rparr>,
      \<lparr>layout_name = ''Vertical Title and Text'',
       layout_placeholders = [(0, PH_TITLE), (1, PH_BODY)] @ footers\<rparr>]"

definition example_world :: world where
  "example_world =
     \<lparr>w_file = ''/home/user/mytest/create_pptx.py'',
      w_clock = \<lparr>year = 2026, month = 11, day = 4, hour = 9, minute = 30, second = 0\<rparr>,
      w_template = default_template,
      w_argv = [''create_pptx.py''],
      w_environ = [(''HOME'', ''/home/user'')],
      w_writable = (\<lambda>path. True),
      w_files = Map.empty,
      w_stdout = []\<rparr>"

section \<open>Vocabulary for the properties\<close>

fun is_textbox :: "shape \<Rightarrow> bool" where
  "is_textbox (TextBox x y cx cy tf) = True"
| "is_textbox sp = False"

fun is_autoshape :: "shape \<Rightarrow> bool" where
  "is_autoshape (AutoShape t x y cx cy f sh tf) = True"
| "is_autoshape sp = False"

fun is_table :: "shape \<Rightarrow> bool" where
  "is_table (TableFrame x y cx cy tbl) = True"
| "is_table sp = False"

fun is_chart :: "shape \<Rightarrow> bool" where
  "is_chart (ChartFrame x y cx cy ch) = True"
| "is_chart sp = False"

fun is_picture :: "shape \<Rightarrow> bool" where
  "is_picture (Picture x y cx cy name blob) = True"
| "is_picture sp = False"

text \<open>
  The seven procedures under one name each, the layout each asks for, the statements each
  runs on its new slide, and a sequence of calls run the way \<open>main\<close> runs its own: one
  after the other on the same presentation, stopping at the first that raises.
\<close>

datatype procedure =
  TitleSlide | ContentSlide | ShapesSlide | TableSlide | ChartSlide | ImageSlide | ImageSlideV2

fun run_procedure ::
  "datetime \<Rightarrow> procedure \<Rightarrow> presentation \<Rightarrow> (error + unit) \<times> presentation" where
  "run_procedure now TitleSlide prs = create_title_slide now prs"
| "run_procedure now ContentSlide prs = create_content_slide prs"
| "run_procedure now ShapesSlide prs = create_shapes_slide prs"
| "run_procedure now TableSlide prs = create_table_slide prs"
| "run_procedure now ChartSlide prs = create_chart_slide prs"
| "run_procedure now ImageSlide prs = create_image_slide prs"
| "run_procedure now ImageSlideV2 prs = create_image_slide_v2 prs"

fun layout_index :: "procedure \<Rightarrow> nat" where
  "layout_index TitleSlide = 0"
| "layout_index ContentSlide = 1"
| "layout_index p = 6"

fun procedure_body :: "datetime \<Rightarrow> procedure \<Rightarrow> slide \<Rightarrow> (error + unit) \<times> slide" where
  "procedure_body now TitleSlide = title_slide_body now"
| "procedure_body now ContentSlide = content_slide_body"
| "procedure_body now ShapesSlide = shapes_slide_body"
| "procedure_body now TableSlide = table_slide_body"
| "procedure_body now ChartSlide = chart_slide_body"
| "procedure_body now ImageSlide = image_slide_body"
| "procedure_body now ImageSlideV2 = image_slide_v2_body"

fun run_all ::
  "datetime \<Rightarrow> procedure list \<Rightarrow> presentation \<Rightarrow> (error + unit) \<times> presentation" where
  "run_all now [] prs = (Inr (), prs)"
| "run_all now (p # ps) prs =
     (case run_procedure now p prs of
        (Inl e, prs) \<Rightarrow> (Inl e, prs)
      | (Inr u, prs) \<Rightarrow> run_all now ps prs)"

definition main_order :: "procedure list" where
  \<comment> \<open>the calls of lines 35 to 53\<close>
  "main_order =
     [TitleSlide, ContentSlide, ShapesSlide, TableSlide, ChartSlide, ImageSlide, ImageSlideV2]"

definition output_file :: "world \<Rightarrow> string" where
  \<comment> \<open>the value of \<open>output_file\<close> at line 56\<close>
  "output_file w = os_path_join (os_path_dirname (w_file w)) ''sample_presentation.pptx''"

definition cloned :: "SlideLayout \<Rightarrow> (nat \<times> ph_type) list" where
  "cloned layout = filter cloneable (layout_placeholders layout)"

definition idx1_present :: "SlideLayout \<Rightarrow> bool" where
  \<comment> \<open>a slide of this layout with more than one placeholder has one with \<open>idx\<close> 1\<close>
  "idx1_present layout = (1 < length (cloned layout) \<longrightarrow> 1 \<in> set (map fst (cloned layout)))"

definition subtitle_text :: "slide \<Rightarrow> string option" where
  \<comment> \<open>reading \<^verbatim>\<open>slide.placeholders[1].text\<close>, where there is such a placeholder\<close>
  "subtitle_text slide =
     (case placeholders_getitem slide 1 of
        Inl e \<Rightarrow> None
      | Inr ref \<Rightarrow> map_option text_frame_text (shape_text_frame (shapes slide ! ref)))"

definition same_date :: "datetime \<Rightarrow> datetime \<Rightarrow> bool" where
  "same_date a b = (year a = year b \<and> month a = month b \<and> day a = day b)"

definition valid_date :: "datetime \<Rightarrow> bool" where
  \<comment> \<open>the ranges a \<open>datetime\<close> keeps its date in\<close>
  "valid_date a = (1 \<le> year a \<and> year a \<le> 9999 \<and> 1 \<le> month a \<and> month a \<le> 12
                   \<and> 1 \<le> day a \<and> day a \<le> 31)"

definition styled ::
  "string \<Rightarrow> int option \<Rightarrow> bool option \<Rightarrow> bool option \<Rightarrow> PP_ALIGN option \<Rightarrow> Paragraph" where
  \<comment> \<open>a paragraph at level 0 with this text, font size, bold, italic and alignment\<close>
  "styled t sz b i a =
     \<lparr>p_text = t, p_level = 0,
      p_font = \<lparr>font_size = sz, font_bold = b, font_italic = i\<rparr>,
      p_alignment = a\<rparr>"

definition title_box :: "string \<Rightarrow> shape" where
  \<comment> \<open>the text box that five of the procedures put at the top of their slide: the empty
      paragraph a text box starts with, and the added paragraph, bold, 40 points, centred\<close>
  "title_box t =
     TextBox (Inches 1) (Inches 0.5) (Inches 8) (Inches 1)
       [styled [] None None None None, styled t (Some (Pt 40)) (Some True) None (Some CENTER)]"

definition body_ok :: "procedure \<Rightarrow> SlideLayout \<Rightarrow> bool" where
  \<comment> \<open>the two procedures that look placeholder 1 up find it\<close>
  "body_ok p layout = (p \<in> {TitleSlide, ContentSlide} \<longrightarrow> idx1_present layout)"

definition succeeds :: "SlideLayout list \<Rightarrow> procedure \<Rightarrow> bool" where
  \<comment> \<open>the layout the procedure asks for is there, and so is placeholder 1 where it is
      looked up\<close>
  "succeeds layouts p =
     (layout_index p < length layouts \<and> body_ok p (layouts ! layout_index p))"

definition made :: "datetime \<Rightarrow> SlideLayout list \<Rightarrow> procedure \<Rightarrow> slide" where
  \<comment> \<open>the slide the procedure leaves behind, given the layouts and the clock\<close>
  "made now layouts p = snd (procedure_body now p (new_slide (layouts ! layout_index p)))"

definition title_frame :: "slide \<Rightarrow> text_frame option" where
  \<comment> \<open>reading \<^verbatim>\<open>slide.shapes.title.text_frame.paragraphs\<close>, where there is a title\<close>
  "title_frame slide =
     (case shapes_title slide of
        None \<Rightarrow> None
      | Some ref \<Rightarrow> shape_text_frame (shapes slide ! ref))"

definition placeholder_frame :: "slide \<Rightarrow> nat \<Rightarrow> text_frame option" where
  \<comment> \<open>reading \<^verbatim>\<open>slide.placeholders[i].text_frame.paragraphs\<close>, where there is such a
      placeholder\<close>
  "placeholder_frame slide i =
     (case placeholders_getitem slide i of
        Inl e \<Rightarrow> None
      | Inr ref \<Rightarrow> shape_text_frame (shapes slide ! ref))"

definition bullet :: "string \<Rightarrow> Paragraph" where
  \<comment> \<open>a paragraph at level 1 with this text and nothing else set\<close>
  "bullet t = (styled t None None None None)\<lparr>p_level := 1\<rparr>"

section \<open>Lemmas about lists and text\<close>

lemma split_on_no_sep: "c \<notin> set s \<Longrightarrow> split_on c s = [s]"
  by (induction s) auto

lemma split_on_not_Nil: "split_on c s \<noteq> []"
  by (induction s) (auto split: list.splits)

lemma join_split: "join_with c (split_on c s) = s"
proof (induction s)
  case Nil
  then show ?case by simp
next
  case (Cons x xs)
  show ?case
  proof (cases "x = c")
    case True
    then show ?thesis
      using Cons split_on_not_Nil [of c xs] by (cases "split_on c xs") auto
  next
    case False
    then show ?thesis
      using Cons split_on_not_Nil [of c xs]
      by (cases "split_on c xs"; cases "tl (split_on c xs)") auto
  qed
qed

lemma find_index_update:
  "P y = P (xs ! i) \<Longrightarrow> i < length xs \<Longrightarrow> find_index P (xs[i := y]) = find_index P xs"
proof (induction xs arbitrary: i)
  case Nil
  then show ?case by simp
next
  case (Cons x xs)
  then show ?case by (cases i) auto
qed

lemma find_index_Some: "find_index P xs = Some r \<Longrightarrow> r < length xs \<and> P (xs ! r)"
proof (induction xs arbitrary: r)
  case Nil
  then show ?case by simp
next
  case (Cons x xs)
  then show ?case by (cases "P x") auto
qed

lemma find_index_None: "find_index P xs = None \<longleftrightarrow> (\<forall>x \<in> set xs. \<not> P x)"
  by (induction xs) auto

lemma filter_update_length:
  "P y = P (xs ! i) \<Longrightarrow> i < length xs \<Longrightarrow> length (filter P (xs[i := y])) = length (filter P xs)"
proof (induction xs arbitrary: i)
  case Nil
  then show ?case by simp
next
  case (Cons x xs)
  then show ?case by (cases i) auto
qed

lemma text_of_set_text: "text_frame_text (text_frame_set_text s tf) = s"
  by (simp add: text_frame_text_def text_frame_set_text_def comp_def join_split)

lemma set_text_one_line:
  "newline \<notin> set s \<Longrightarrow> text_frame_set_text s tf = [new_paragraph\<lparr>p_text := s\<rparr>]"
  by (simp add: text_frame_set_text_def split_on_no_sep)

lemma paragraph_set_text_one_line:
  "newline \<notin> set s \<Longrightarrow> paragraph_set_text s p = p\<lparr>p_text := s\<rparr>"
proof -
  assume "newline \<notin> set s"
  then have "map (\<lambda>c. if c = newline then vtab else c) s = s"
    by (induction s) auto
  then show ?thesis by (simp add: paragraph_set_text_def)
qed

lemma map_text_frame_kind [simp]:
  "is_placeholder (map_text_frame g sp) = is_placeholder sp"
  "has_idx i (map_text_frame g sp) = has_idx i sp"
  by (cases sp; simp)+

lemma shape_text_frame_map [simp]:
  "shape_text_frame (map_text_frame g sp) = map_option g (shape_text_frame sp)"
  by (cases sp) simp_all

lemma with_slide_last:
  "with_slide (length xs) body (prs\<lparr>slides := xs @ [s]\<rparr>)
     = (fst (body s), prs\<lparr>slides := xs @ [snd (body s)]\<rparr>)"
  by (simp add: with_slide_def split_beta)

lemma set_shape_text_placeholders [simp]:
  "placeholders_len (set_shape_text r t s) = placeholders_len s"
  by (cases "r < length (shapes s)")
     (simp_all add: placeholders_len_def set_shape_text_def update_shape_def filter_update_length
        not_less list_update_beyond)

lemma set_shape_text_find [simp]:
  "find_index (has_idx i) (shapes (set_shape_text r t s)) = find_index (has_idx i) (shapes s)"
  by (cases "r < length (shapes s)")
     (simp_all add: set_shape_text_def update_shape_def find_index_update not_less
        list_update_beyond)

section \<open>What each procedure does to its slide\<close>

lemmas body_simps =
  add_textbox_def add_paragraph_def set_text_def set_font_size_def set_font_bold_def
  set_font_italic_def set_alignment_def set_level_def set_shape_text_def
  update_paragraph_def update_shape_def add_shape_def fill_solid_def set_fore_color_rgb_def
  set_shadow_inherit_def add_table_def add_chart_def add_picture_def
  new_text_frame_def Let_def list_update_append nth_append

lemma literals_one_line:
  "newline \<notin> set str_L71" "newline \<notin> set str_L89" "newline \<notin> set str_L101"
  "newline \<notin> set str_L105" "newline \<notin> set str_L110" "newline \<notin> set str_L115"
  "newline \<notin> set str_L120" "newline \<notin> set str_L125" "newline \<notin> set str_L140"
  "newline \<notin> set str_L182" "newline \<notin> set str_L197_0" "newline \<notin> set str_L197_1"
  "newline \<notin> set str_L197_2" "newline \<notin> set str_L206_0" "newline \<notin> set str_L206_1"
  "newline \<notin> set str_L206_2" "newline \<notin> set str_L207_0" "newline \<notin> set str_L207_1"
  "newline \<notin> set str_L207_2" "newline \<notin> set str_L208_0" "newline \<notin> set str_L208_1"
  "newline \<notin> set str_L208_2" "newline \<notin> set str_L227" "newline \<notin> set str_L260"
  "newline \<notin> set str_L272" "newline \<notin> set str_L280" "newline \<notin> set str_L294"
  "newline \<notin> set str_L299" "newline \<notin> set str_L313" "newline \<notin> set str_L364"
  by (simp_all add: newline_def str_L71_def str_L89_def str_L101_def str_L105_def str_L110_def
      str_L115_def str_L120_def str_L125_def str_L140_def str_L182_def str_L197_0_def
      str_L197_1_def str_L197_2_def str_L206_0_def str_L206_1_def str_L206_2_def
      str_L207_0_def str_L207_1_def str_L207_2_def str_L208_0_def str_L208_1_def
      str_L208_2_def str_L227_def str_L260_def str_L272_def str_L280_def str_L294_def
      str_L299_def str_L313_def str_L364_def)

lemmas text_simps =
  paragraph_set_text_one_line set_text_one_line literals_one_line new_paragraph_def new_font_def
  styled_def title_box_def

lemma shapes_slide_body_eq:
  "shapes_slide_body s =
     (Inr (),
      s\<lparr>shapes := shapes s @
        [title_box str_L140,
         AutoShape RECTANGLE (Inches 1) (Inches 2) (Inches 2) (Inches 1)
           (FillSolid (Some (RGBColor 255 0 0))) False new_text_frame,
         AutoShape OVAL (Inches 4) (Inches 2) (Inches 2) (Inches 1)
           (FillSolid (Some (RGBColor 0 255 0))) True new_text_frame,
         AutoShape STAR_5_POINT (Inches 2.5) (Inches 4) (Inches 2) (Inches 2)
           (FillSolid (Some (RGBColor 255 255 0))) True new_text_frame,
         AutoShape HEART (Inches 5.5) (Inches 4) (Inches 2) (Inches 2)
           (FillSolid (Some (RGBColor 255 0 255))) True new_text_frame]\<rparr>)"
  by (simp add: shapes_slide_body_def body_simps text_simps)

lemma table_slide_body_eq:
  "table_slide_body s =
     (Inr (),
      s\<lparr>shapes := shapes s @
        [title_box str_L182,
         TableFrame (Inches 2) (Inches 2) (Inches 6) (Inches 2)
           (map (\<lambda>t. [styled t (Some (Pt 14)) (Some True) None None]) headers
            # map (map (\<lambda>t. [styled t None None None None])) data)]\<rparr>)"
  by (simp add: table_slide_body_def body_simps headers_def data_def enumerate_eq_zip
      table_cell_def new_table_def update_cell_def set_cell_text_def set_cell_font_bold_def
      set_cell_font_size_def numeral_eq_Suc upt_rec text_simps)

lemma chart_slide_body_eq:
  "chart_slide_body s =
     (Inr (),
      s\<lparr>shapes := shapes s @
        [title_box str_L227,
         ChartFrame (Inches 1.5) (Inches 2) (Inches 7) (Inches 5)
           \<lparr>chart_type = COLUMN_CLUSTERED,
            chart_categories = [str_L234_0, str_L234_1, str_L234_2, str_L234_3],
            chart_series = [(str_L241, [8.5, 10.2, 12.5, 9.8]),
                            (str_L242, [10.2, 11.5, 13.8, 11.2])],
            chart_title = Some [styled str_L260 None None None None]\<rparr>]\<rparr>)"
  by (simp add: chart_slide_body_def body_simps CategoryChartData_def add_series_def
      chart_attributes_def chart_title_attributes_def set_has_title_def set_chart_title_text_def
      text_simps)

lemma image_slide_body_eq:
  "image_slide_body s =
     (Inr (),
      s\<lparr>shapes := shapes s @
        [title_box str_L272,
         TextBox (Inches 1) (Inches 2) (Inches 8) (Inches 1)
           [styled str_L280 None None (Some True) None],
         TextBox (Inches 1) (Inches 4) (Inches 8) (Inches 2)
           [styled [] None None None None,
            styled str_L294 (Some (Pt 20)) None None (Some CENTER),
            styled str_L299 (Some (Pt 16)) None None (Some CENTER)]]\<rparr>)"
  by (simp add: image_slide_body_def body_simps text_simps)

lemma image_slide_v2_body_eq:
  "image_slide_v2_body s =
     (Inr (),
      s\<lparr>shapes := shapes s @
        [title_box str_L313,
         Picture (Inches 2) (Inches 2.5) (Some (Inches 6)) None None
           [Encoded ''PNG''
              \<lparr>im_mode = ''RGB'', im_size = (500, 300), im_color = ''white'',
               im_calls =
                 [Rectangle [(20, 20), (480, 280)] None (Some ''blue'') 5,
                  Rectangle [(100, 100), (400, 200)] (Some ''lightblue'') (Some ''darkblue'') 2,
                  Text (250, 150) str_L341 (Some ''black'') (Some ''mm'')]\<rparr>],
         TextBox (Inches 1) (Inches 6) (Inches 8) (Inches 1)
           [styled [] None None None None,
            styled str_L364 (Some (Pt 16)) None None (Some CENTER)]]\<rparr>)"
  by (simp add: image_slide_v2_body_def body_simps Image_new_def draw_rectangle_def
     draw_text_def new_BytesIO_def image_save_def seek_def read_all_def text_simps)

lemma title_slide_body_fst:
  "fst (title_slide_body now s) =
     (if 1 < placeholders_len s \<and> find_index (has_idx 1) (shapes s) = None
      then Inl KeyError else Inr ())"
  by (simp add: title_slide_body_def Let_def placeholders_getitem_def
      split: option.splits sum.splits)

lemma content_slide_body_fst:
  "fst (content_slide_body s) =
     (if 1 < placeholders_len s \<and> find_index (has_idx 1) (shapes s) = None
      then Inl KeyError else Inr ())"
  by (simp add: content_slide_body_def Let_def split_beta placeholders_getitem_def
      split: option.splits sum.splits)

lemma new_slide_placeholders:
  "placeholders_len (new_slide layout) = length (cloned layout)"
  by (simp add: placeholders_len_def new_slide_def cloned_def filter_map comp_def split_beta)

lemma new_slide_find:
  "find_index (has_idx i) (shapes (new_slide layout)) = None \<longleftrightarrow> i \<notin> set (map fst (cloned layout))"
  by (force simp add: find_index_None new_slide_def cloned_def)

lemma procedure_body_fst:
  "fst (procedure_body now p (new_slide layout)) =
     (if body_ok p layout then Inr () else Inl KeyError)"
  by (cases p)
     (auto simp add: title_slide_body_fst content_slide_body_fst shapes_slide_body_eq
        table_slide_body_eq chart_slide_body_eq image_slide_body_eq image_slide_v2_body_eq
        body_ok_def idx1_present_def new_slide_placeholders new_slide_find)

lemma run_procedure_eq:
  "run_procedure now p prs =
     (if layout_index p < length (slide_layouts prs)
      then (fst (procedure_body now p (new_slide (slide_layouts prs ! layout_index p))),
            prs\<lparr>slides := slides prs
               @ [snd (procedure_body now p (new_slide (slide_layouts prs ! layout_index p)))]\<rparr>)
      else (Inl IndexError, prs))"
  by (cases p)
     (simp_all add: create_title_slide_def create_content_slide_def create_shapes_slide_def
        create_table_slide_def create_chart_slide_def create_image_slide_def
        create_image_slide_v2_def slide_layouts_getitem_def add_slide_def with_slide_last)

lemma new_slide_kinds:
  "filter is_picture (shapes (new_slide layout)) = []"
  "filter is_table (shapes (new_slide layout)) = []"
  "filter is_chart (shapes (new_slide layout)) = []"
  "filter is_autoshape (shapes (new_slide layout)) = []"
  "filter is_textbox (shapes (new_slide layout)) = []"
  by (simp_all add: new_slide_def filter_map comp_def split_beta)

lemma new_slide_layout [simp]: "slide_layout (new_slide layout) = layout"
  by (simp add: new_slide_def)

section \<open>Running the procedures in sequence\<close>

lemma update_shape_layout [simp]: "slide_layout (update_shape r g s) = slide_layout s"
  by (simp add: update_shape_def)

lemma add_paragraph_layout [simp]: "slide_layout (snd (add_paragraph r s)) = slide_layout s"
  by (simp add: add_paragraph_def split: option.splits)

lemma title_slide_body_layout: "slide_layout (snd (title_slide_body now s)) = slide_layout s"
  by (simp add: title_slide_body_def Let_def set_shape_text_def split: option.splits sum.splits)

lemma content_slide_body_layout: "slide_layout (snd (content_slide_body s)) = slide_layout s"
  by (simp add: content_slide_body_def Let_def split_beta set_shape_text_def set_text_def
      set_level_def update_paragraph_def split: option.splits sum.splits)

lemma made_layout: "slide_layout (made now layouts p) = layouts ! layout_index p"
  by (cases p)
     (simp_all add: made_def title_slide_body_layout content_slide_body_layout
        shapes_slide_body_eq table_slide_body_eq chart_slide_body_eq image_slide_body_eq
        image_slide_v2_body_eq)

lemma run_procedure_cases:
  "run_procedure now p prs =
     (if succeeds (slide_layouts prs) p
      then (Inr (), prs\<lparr>slides := slides prs @ [made now (slide_layouts prs) p]\<rparr>)
      else if layout_index p < length (slide_layouts prs)
      then (Inl KeyError, prs\<lparr>slides := slides prs @ [made now (slide_layouts prs) p]\<rparr>)
      else (Inl IndexError, prs))"
  by (simp add: run_procedure_eq procedure_body_fst succeeds_def made_def)



lemma run_all_ok:
  "run_all now ps prs = (Inr (), q) \<longleftrightarrow>
     list_all (succeeds (slide_layouts prs)) ps
     \<and> q = prs\<lparr>slides := slides prs @ map (made now (slide_layouts prs)) ps\<rparr>"
proof (induction ps arbitrary: prs)
  case Nil
  then show ?case by auto
next
  case (Cons p ps)
  show ?case
  proof (cases "succeeds (slide_layouts prs) p")
    case True
    then show ?thesis
      by (simp add: run_procedure_cases Cons)
  next
    case False
    then show ?thesis
      by (simp add: run_procedure_cases)
  qed
qed

lemma main_eq:
  "main w =
     (case run_all (w_clock w) main_order (Presentation (w_template w)) of
        (Inl e, prs) \<Rightarrow> (Inl e, w)
      | (Inr u, prs) \<Rightarrow>
          (case save prs (output_file w) w of
             Inl e \<Rightarrow> (Inl e, w)
           | Inr w' \<Rightarrow> (Inr (), print (str_L59 @ output_file w) w')))"
  by (simp add: main_def main_order_def output_file_def Let_def split: prod.splits sum.splits)

lemma main_order_succeeds:
  "6 < length layouts \<Longrightarrow> idx1_present (layouts ! 0) \<Longrightarrow> idx1_present (layouts ! 1)
     \<Longrightarrow> list_all (succeeds layouts) main_order"
  by (auto simp add: main_order_def succeeds_def body_ok_def)

lemma made_kinds:
  "length (filter is_autoshape (shapes (made now layouts ShapesSlide))) = 4"
  "length (filter is_table (shapes (made now layouts TableSlide))) = 1"
  "length (filter is_chart (shapes (made now layouts ChartSlide))) = 1"
  "length (filter is_textbox (shapes (made now layouts ImageSlide))) = 3"
  "filter is_picture (shapes (made now layouts ImageSlide)) = []"
  "length (filter is_picture (shapes (made now layouts ImageSlideV2))) = 1"
  by (simp_all add: made_def shapes_slide_body_eq table_slide_body_eq chart_slide_body_eq
      image_slide_body_eq image_slide_v2_body_eq new_slide_kinds title_box_def)

lemma alone_eq_made:
  "list_all (succeeds (slide_layouts prs)) ps \<Longrightarrow>
     concat (map (\<lambda>p. slides (snd (run_procedure now p (prs\<lparr>slides := []\<rparr>)))) ps)
       = map (made now (slide_layouts prs)) ps"
  by (induction ps) (simp_all add: run_procedure_cases)




section \<open>The run of \<open>main\<close>, dates and the subtitle\<close>

lemma output_file_frame [simp]:
  "output_file (w\<lparr>w_argv := a\<rparr>) = output_file w"
  "output_file (w\<lparr>w_environ := env\<rparr>) = output_file w"
  "output_file (w\<lparr>w_clock := d\<rparr>) = output_file w"
  by (simp_all add: output_file_def)

lemma main_cases:
  "main w =
     (case run_all (w_clock w) main_order (Presentation (w_template w)) of
        (Inl e, prs) \<Rightarrow> (Inl e, w)
      | (Inr u, prs) \<Rightarrow>
          if w_writable w (output_file w)
          then (Inr (), w\<lparr>w_files := (w_files w)(output_file w \<mapsto> PptxFile prs),
                          w_stdout := w_stdout w @ [str_L59 @ output_file w]\<rparr>)
          else (Inl OSError, w))"
  by (simp add: main_eq save_def print_def split: prod.splits sum.splits)

lemma main_success:
  assumes "6 < length (w_template w)"
    and "idx1_present (w_template w ! 0)"
    and "idx1_present (w_template w ! 1)"
    and "w_writable w (output_file w)"
  shows "main w =
     (Inr (),
      w\<lparr>w_files := (w_files w)(output_file w \<mapsto>
           PptxFile ((Presentation (w_template w))
                       \<lparr>slides := map (made (w_clock w) (w_template w)) main_order\<rparr>)),
        w_stdout := w_stdout w @ [str_L59 @ output_file w]\<rparr>)"
proof -
  have "run_all (w_clock w) main_order (Presentation (w_template w))
          = (Inr (), (Presentation (w_template w))
                       \<lparr>slides := map (made (w_clock w) (w_template w)) main_order\<rparr>)"
    using main_order_succeeds [OF assms(1-3)]
    by (simp add: run_all_ok) (simp add: Presentation_def)
  with assms(4) show ?thesis
    by (simp add: main_cases)
qed

lemma example_world_ok:
  "6 < length (w_template example_world)"
  "idx1_present (w_template example_world ! 0)"
  "idx1_present (w_template example_world ! 1)"
  "w_writable example_world path"
  "1 < length (cloned (w_template example_world ! 0))"
  "1 \<in> set (map fst (cloned (w_template example_world ! 0)))"
  by (simp_all add: example_world_def default_template_def idx1_present_def cloned_def
        footers_def cloneable_def)

lemma example_output_file:
  "output_file example_world = ''/home/user/mytest/sample_presentation.pptx''"
  by (simp add: output_file_def example_world_def os_path_dirname_def os_path_join_def)

lemma digit_inj: "digit a = digit b \<Longrightarrow> a mod 10 = b mod 10"
proof -
  assume h: "digit a = digit b"
  have d: "distinct ''0123456789''"
    by simp
  have "a mod 10 < length ''0123456789''" and "b mod 10 < length ''0123456789''"
    by simp_all
  with d h show ?thesis
    unfolding digit_def by (simp only: nth_eq_iff_index_eq)
qed

lemma length_decimal [simp]: "length (decimal w n) = w"
  by (induction w arbitrary: n) simp_all

lemma decimal_inj:
  "a < 10 ^ w \<Longrightarrow> b < 10 ^ w \<Longrightarrow> decimal w a = decimal w b \<Longrightarrow> a = b"
proof (induction w arbitrary: a b)
  case 0
  then show ?case by simp
next
  case (Suc w)
  from Suc.prems(3) have hi: "decimal w (a div 10) = decimal w (b div 10)"
    and lo: "digit a = digit b"
    by simp_all
  from Suc.prems(1,2) have "a div 10 < 10 ^ w" and "b div 10 < 10 ^ w"
    by (simp_all add: less_mult_imp_div_less mult.commute)
  with hi have "a div 10 = b div 10"
    by (rule Suc.IH [rotated 2])
  moreover from lo have "a mod 10 = b mod 10"
    by (rule digit_inj)
  ultimately show ?case
    by (metis div_mult_mod_eq)
qed

lemma strftime_date:
  "strftime ''%Y-%m-%d'' d
     = decimal 4 (year d) @ ''-'' @ decimal 2 (month d) @ ''-'' @ decimal 2 (day d)"
  by simp

lemma strftime_date_inj:
  assumes "valid_date a" and "valid_date b"
    and "strftime ''%Y-%m-%d'' a = strftime ''%Y-%m-%d'' b"
  shows "same_date a b"
proof -
  from assms(3) have "decimal 4 (year a) = decimal 4 (year b)"
    and "decimal 2 (month a) = decimal 2 (month b)"
    and "decimal 2 (day a) = decimal 2 (day b)"
    unfolding strftime_date by simp_all
  moreover from assms(1,2) have "year a < 10 ^ 4" "year b < 10 ^ 4"
    "month a < 10 ^ 2" "month b < 10 ^ 2" "day a < 10 ^ 2" "day b < 10 ^ 2"
    by (simp_all add: valid_date_def)
  ultimately show ?thesis
    unfolding same_date_def by (blast dest: decimal_inj)
qed

lemma has_idx_text_frame: "has_idx i sp \<Longrightarrow> shape_text_frame sp \<noteq> None"
  by (cases sp) simp_all

lemma subtitle_of_set_text:
  assumes "find_index (has_idx 1) (shapes s) = Some r"
  shows "subtitle_text (set_shape_text r t s) = Some t"
proof -
  from assms have r: "r < length (shapes s)" and idx: "has_idx 1 (shapes s ! r)"
    by (simp_all add: find_index_Some)
  from idx obtain tf where tf: "shape_text_frame (shapes s ! r) = Some tf"
    using has_idx_text_frame by blast
  have "shapes (set_shape_text r t s) ! r = map_text_frame (text_frame_set_text t) (shapes s ! r)"
    using r by (simp add: set_shape_text_def update_shape_def)
  then show ?thesis
    using assms tf by (simp add: subtitle_text_def placeholders_getitem_def text_of_set_text)
qed

lemma subtitle_of_title_body:
  assumes "1 < placeholders_len s" and "find_index (has_idx 1) (shapes s) = Some r"
  shows "subtitle_text (snd (title_slide_body now s))
           = Some (str_L77_head @ strftime ''%Y-%m-%d'' now @ str_L77_tail)"
  using assms
  by (simp add: title_slide_body_def Let_def placeholders_getitem_def subtitle_of_set_text
      split: option.splits)

section \<open>The text of the first two slides\<close>

lemma two_members: "a \<in> set xs \<Longrightarrow> b \<in> set xs \<Longrightarrow> a \<noteq> b \<Longrightarrow> 1 < length xs"
  by (cases xs; cases "tl xs") auto

lemma has_idx_Placeholder: "has_idx i sp \<Longrightarrow> \<exists>ty tf. sp = Placeholder i ty tf"
  by (cases sp) simp_all

lemma content_slide_body_frames:
  assumes t: "find_index (has_idx 0) (shapes s) = Some t"
    and r: "find_index (has_idx 1) (shapes s) = Some r"
    and many: "1 < placeholders_len s"
  shows "fst (content_slide_body s) = Inr ()"
    and "title_frame (snd (content_slide_body s)) = Some [styled str_L89 None None None None]"
    and "placeholder_frame (snd (content_slide_body s)) 1
           = Some [styled str_L101 None None None None, bullet str_L105, bullet str_L110,
                   bullet str_L115, bullet str_L120, bullet str_L125]"
proof -
  from t have tl: "t < length (shapes s)" and ti: "has_idx 0 (shapes s ! t)"
    by (simp_all add: find_index_Some)
  from r have rl: "r < length (shapes s)" and ri: "has_idx 1 (shapes s ! r)"
    by (simp_all add: find_index_Some)
  from ti ri have ne: "t \<noteq> r"
    by (cases "shapes s ! t") auto
  from ti obtain ty0 tf0 where pt: "shapes s ! t = Placeholder 0 ty0 tf0"
    using has_idx_Placeholder by blast
  from ri obtain ty1 tf1 where pr: "shapes s ! r = Placeholder 1 ty1 tf1"
    using has_idx_Placeholder by blast
  let ?title = "Placeholder 0 ty0 [styled str_L89 None None None None]"
  let ?body = "Placeholder 1 ty1
                 [styled str_L101 None None None None, bullet str_L105, bullet str_L110,
                  bullet str_L115, bullet str_L120, bullet str_L125]"
  have f0: "find_index (has_idx i) ((shapes s)[t := Placeholder 0 ty0 x]) = find_index (has_idx i) (shapes s)"
    for i x
    using tl pt by (simp add: find_index_update)
  have l0: "length (filter is_placeholder ((shapes s)[t := Placeholder 0 ty0 x]))
              = length (filter is_placeholder (shapes s))" for x
    using tl pt by (simp add: filter_update_length)
  have eq: "content_slide_body s = (Inr (), s\<lparr>shapes := (shapes s)[t := ?title, r := ?body]\<rparr>)"
    using t r many tl rl ne pt pr
    by (simp add: content_slide_body_def shapes_title_def placeholders_getitem_def
        placeholders_len_def body_simps text_simps bullet_def f0 l0)
  show "fst (content_slide_body s) = Inr ()"
    by (simp add: eq)
  let ?xs = "(shapes s)[t := ?title, r := ?body]"
  have ft: "find_index (has_idx 0) ?xs = Some t" and fr: "find_index (has_idx 1) ?xs = Some r"
    using t r tl rl pt pr ne by (simp_all add: find_index_update)
  have nt: "?xs ! t = ?title" and nr: "?xs ! r = ?body"
    using tl rl ne by simp_all
  show "title_frame (snd (content_slide_body s)) = Some [styled str_L89 None None None None]"
    by (simp add: eq title_frame_def shapes_title_def ft nt del: One_nat_def)
  show "placeholder_frame (snd (content_slide_body s)) 1
           = Some [styled str_L101 None None None None, bullet str_L105, bullet str_L110,
                   bullet str_L115, bullet str_L120, bullet str_L125]"
    by (simp add: eq placeholder_frame_def placeholders_getitem_def fr nr del: One_nat_def)
qed

lemma split_on_sep: "c \<notin> set a \<Longrightarrow> split_on c (a @ c # b) = a # split_on c b"
  by (induction a) auto

lemma digit_not_newline: "digit n \<noteq> newline"
proof -
  have "digit n \<in> set ''0123456789''"
    unfolding digit_def by (rule nth_mem) simp
  then show ?thesis
    by (auto simp add: newline_def)
qed

lemma decimal_one_line: "newline \<notin> set (decimal w n)"
  by (induction w arbitrary: n) (simp_all add: digit_not_newline [symmetric])

lemma subtitle_two_lines:
  "text_frame_set_text (str_L77_head @ strftime ''%Y-%m-%d'' now @ str_L77_tail) tf
     = [styled (str_L77_head @ strftime ''%Y-%m-%d'' now) None None None None,
        styled (tl str_L77_tail) None None None None]"
proof -
  have h: "newline \<notin> set (str_L77_head @ strftime ''%Y-%m-%d'' now)"
    unfolding strftime_date
    by (simp add: decimal_one_line) (simp add: str_L77_head_def newline_def)
  have t: "str_L77_tail = newline # tl str_L77_tail" and tt: "newline \<notin> set (tl str_L77_tail)"
    by (simp_all add: str_L77_tail_def newline_def)
  have "split_on newline ((str_L77_head @ strftime ''%Y-%m-%d'' now) @ newline # tl str_L77_tail)
          = [str_L77_head @ strftime ''%Y-%m-%d'' now, tl str_L77_tail]"
    by (simp only: split_on_sep [OF h] split_on_no_sep [OF tt])
  then have "split_on newline (str_L77_head @ strftime ''%Y-%m-%d'' now @ str_L77_tail)
          = [str_L77_head @ strftime ''%Y-%m-%d'' now, tl str_L77_tail]"
    using t by (metis append.assoc)
  then show ?thesis
    by (simp only: text_frame_set_text_def) (simp add: styled_def new_paragraph_def new_font_def)
qed

lemma title_slide_body_frames:
  assumes t: "find_index (has_idx 0) (shapes s) = Some t"
    and r: "find_index (has_idx 1) (shapes s) = Some r"
    and many: "1 < placeholders_len s"
  shows "fst (title_slide_body now s) = Inr ()"
    and "title_frame (snd (title_slide_body now s)) = Some [styled str_L71 None None None None]"
    and "placeholder_frame (snd (title_slide_body now s)) 1
           = Some [styled (str_L77_head @ strftime ''%Y-%m-%d'' now) None None None None,
                   styled (tl str_L77_tail) None None None None]"
proof -
  from t have tl: "t < length (shapes s)" and ti: "has_idx 0 (shapes s ! t)"
    by (simp_all add: find_index_Some)
  from r have rl: "r < length (shapes s)" and ri: "has_idx 1 (shapes s ! r)"
    by (simp_all add: find_index_Some)
  from ti ri have ne: "t \<noteq> r"
    by (cases "shapes s ! t") auto
  from ti obtain ty0 tf0 where pt: "shapes s ! t = Placeholder 0 ty0 tf0"
    using has_idx_Placeholder by blast
  from ri obtain ty1 tf1 where pr: "shapes s ! r = Placeholder 1 ty1 tf1"
    using has_idx_Placeholder by blast
  let ?title = "Placeholder 0 ty0 [styled str_L71 None None None None]"
  let ?sub = "Placeholder 1 ty1
                [styled (str_L77_head @ strftime ''%Y-%m-%d'' now) None None None None,
                 styled (tl str_L77_tail) None None None None]"
  have f0: "find_index (has_idx i) ((shapes s)[t := Placeholder 0 ty0 x])
              = find_index (has_idx i) (shapes s)" for i x
    using tl pt by (simp add: find_index_update)
  have l0: "length (filter is_placeholder ((shapes s)[t := Placeholder 0 ty0 x]))
              = length (filter is_placeholder (shapes s))" for x
    using tl pt by (simp add: filter_update_length)
  have eq: "title_slide_body now s = (Inr (), s\<lparr>shapes := (shapes s)[t := ?title, r := ?sub]\<rparr>)"
    using t r many tl rl ne pt pr
    by (simp add: title_slide_body_def shapes_title_def placeholders_getitem_def
        placeholders_len_def set_shape_text_def update_shape_def Let_def f0 l0
        subtitle_two_lines set_text_one_line literals_one_line styled_def new_paragraph_def
        new_font_def del: strftime.simps)
  show "fst (title_slide_body now s) = Inr ()"
    by (simp add: eq)
  let ?xs = "(shapes s)[t := ?title, r := ?sub]"
  have ft: "find_index (has_idx 0) ?xs = Some t" and fr: "find_index (has_idx 1) ?xs = Some r"
    using t r tl rl pt pr ne by (simp_all add: find_index_update del: strftime.simps)
  have nt: "?xs ! t = ?title" and nr: "?xs ! r = ?sub"
    using tl rl ne by (simp_all del: strftime.simps)
  show "title_frame (snd (title_slide_body now s)) = Some [styled str_L71 None None None None]"
    by (simp add: eq title_frame_def shapes_title_def ft nt del: One_nat_def strftime.simps)
  show "placeholder_frame (snd (title_slide_body now s)) 1
           = Some [styled (str_L77_head @ strftime ''%Y-%m-%d'' now) None None None None,
                   styled (tl str_L77_tail) None None None None]"
    by (simp add: eq placeholder_frame_def placeholders_getitem_def fr nr
        del: One_nat_def strftime.simps)
qed

lemma made_shapes:
  "shapes (made now layouts ShapesSlide) = shapes (new_slide (layouts ! 6))
     @ [title_box str_L140,
        AutoShape RECTANGLE (Inches 1) (Inches 2) (Inches 2) (Inches 1)
          (FillSolid (Some (RGBColor 255 0 0))) False new_text_frame,
        AutoShape OVAL (Inches 4) (Inches 2) (Inches 2) (Inches 1)
          (FillSolid (Some (RGBColor 0 255 0))) True new_text_frame,
        AutoShape STAR_5_POINT (Inches 2.5) (Inches 4) (Inches 2) (Inches 2)
          (FillSolid (Some (RGBColor 255 255 0))) True new_text_frame,
        AutoShape HEART (Inches 5.5) (Inches 4) (Inches 2) (Inches 2)
          (FillSolid (Some (RGBColor 255 0 255))) True new_text_frame]"
  "shapes (made now layouts TableSlide) = shapes (new_slide (layouts ! 6))
     @ [title_box str_L182,
        TableFrame (Inches 2) (Inches 2) (Inches 6) (Inches 2)
          (map (\<lambda>t. [styled t (Some (Pt 14)) (Some True) None None]) headers
           # map (map (\<lambda>t. [styled t None None None None])) data)]"
  "shapes (made now layouts ChartSlide) = shapes (new_slide (layouts ! 6))
     @ [title_box str_L227,
        ChartFrame (Inches 1.5) (Inches 2) (Inches 7) (Inches 5)
          \<lparr>chart_type = COLUMN_CLUSTERED,
           chart_categories = [str_L234_0, str_L234_1, str_L234_2, str_L234_3],
           chart_series = [(str_L241, [8.5, 10.2, 12.5, 9.8]),
                           (str_L242, [10.2, 11.5, 13.8, 11.2])],
           chart_title = Some [styled str_L260 None None None None]\<rparr>]"
  "shapes (made now layouts ImageSlide) = shapes (new_slide (layouts ! 6))
     @ [title_box str_L272,
        TextBox (Inches 1) (Inches 2) (Inches 8) (Inches 1)
          [styled str_L280 None None (Some True) None],
        TextBox (Inches 1) (Inches 4) (Inches 8) (Inches 2)
          [styled [] None None None None,
           styled str_L294 (Some (Pt 20)) None None (Some CENTER),
           styled str_L299 (Some (Pt 16)) None None (Some CENTER)]]"
  "shapes (made now layouts ImageSlideV2) = shapes (new_slide (layouts ! 6))
     @ [title_box str_L313,
        Picture (Inches 2) (Inches 2.5) (Some (Inches 6)) None None
          [Encoded ''PNG''
             \<lparr>im_mode = ''RGB'', im_size = (500, 300), im_color = ''white'',
              im_calls =
                [Rectangle [(20, 20), (480, 280)] None (Some ''blue'') 5,
                 Rectangle [(100, 100), (400, 200)] (Some ''lightblue'') (Some ''darkblue'') 2,
                 Text (250, 150) str_L341 (Some ''black'') (Some ''mm'')]\<rparr>],
        TextBox (Inches 1) (Inches 6) (Inches 8) (Inches 1)
          [styled [] None None None None,
           styled str_L364 (Some (Pt 16)) None None (Some CENTER)]]"
  by (simp_all add: made_def shapes_slide_body_eq table_slide_body_eq chart_slide_body_eq
      image_slide_body_eq image_slide_v2_body_eq)

lemma new_slide_has:
  assumes "i \<in> set (map fst (cloned layout))"
  shows "\<exists>r. find_index (has_idx i) (shapes (new_slide layout)) = Some r"
proof -
  from assms have "find_index (has_idx i) (shapes (new_slide layout)) \<noteq> None"
    by (simp only: new_slide_find) simp
  then show ?thesis
    by blast
qed

lemma example_world_titled:
  "0 \<in> set (map fst (cloned (w_template example_world ! 0)))"
  "1 \<in> set (map fst (cloned (w_template example_world ! 0)))"
  "0 \<in> set (map fst (cloned (w_template example_world ! 1)))"
  "1 \<in> set (map fst (cloned (w_template example_world ! 1)))"
  by (simp_all add: example_world_def default_template_def cloned_def footers_def cloneable_def)

lemma update_shape_length [simp]: "length (shapes (update_shape r g s)) = length (shapes s)"
  by (simp add: update_shape_def)

lemma add_paragraph_length [simp]:
  "length (shapes (snd (add_paragraph r s))) = length (shapes s)"
  by (simp add: add_paragraph_def split: option.splits)

lemma title_slide_body_shapes_length:
  "length (shapes (snd (title_slide_body now s))) = length (shapes s)"
  by (simp add: title_slide_body_def Let_def set_shape_text_def split: option.splits sum.splits)

lemma content_slide_body_shapes_length:
  "length (shapes (snd (content_slide_body s))) = length (shapes s)"
  by (simp add: content_slide_body_def Let_def split_beta set_shape_text_def set_text_def
      set_level_def update_paragraph_def split: option.splits sum.splits)

lemma decimal_4:
  "decimal 4 n = [digit (n div 10 div 10 div 10), digit (n div 10 div 10), digit (n div 10), digit n]"
proof -
  have "(4::nat) = Suc (Suc (Suc (Suc 0)))"
    by simp
  then show ?thesis
    by (simp only: decimal.simps append.simps)
qed

lemma decimal_2: "decimal 2 n = [digit (n div 10), digit n]"
proof -
  have "(2::nat) = Suc (Suc 0)"
    by simp
  then show ?thesis
    by (simp only: decimal.simps append.simps)
qed

lemma example_date: "strftime ''%Y-%m-%d'' (w_clock example_world) = ''2026-11-04''"
  unfolding strftime_date decimal_4 decimal_2
  by (simp add: example_world_def digit_def)

section \<open>The seven slides of \<open>main\<close>\<close>

text \<open>
  C1: \<open>main\<close> starts from \<open>Presentation()\<close>, which has the layouts of the default
  template and no slide. Where layouts 0 and 1 of that template each have a title
  placeholder (\<open>idx\<close> 0) and a placeholder with \<open>idx\<close> 1, layout 6 exists and the
  output file can be written, \<open>main\<close> returns normally and the file it has written holds
  a document of exactly seven slides, in this order:
  \<^item> the title slide: on layout 0, its title reading the text of line 71 and its
    placeholder 1 the two lines of line 77, the first ending in the date;
  \<^item> the bulleted slide: on layout 1, its title reading the text of line 89 and its
    placeholder 1 holding the line of line 101 and the five bullets of lines 105 to 125
    at level 1;
  \<^item> the shapes slide: the title box and the four filled auto shapes;
  \<^item> the table slide: the title box and the table;
  \<^item> the chart slide: the title box and the chart;
  \<^item> the first image slide: three text boxes and no picture;
  \<^item> the second image slide: the title box, the picture and a text box.
\<close>

theorem main_seven_slides:
  assumes "6 < length (w_template w)"
    and "0 \<in> set (map fst (cloned (w_template w ! 0)))"
    and "1 \<in> set (map fst (cloned (w_template w ! 0)))"
    and "0 \<in> set (map fst (cloned (w_template w ! 1)))"
    and "1 \<in> set (map fst (cloned (w_template w ! 1)))"
    and "w_writable w (output_file w)"
  shows "\<exists>prs. main w = (Inr (), print (str_L59 @ output_file w)
                              (w\<lparr>w_files := (w_files w)(output_file w \<mapsto> PptxFile prs)\<rparr>))
           \<and> length (slides prs) = 7
           \<and> slides prs =
               [snd (title_slide_body (w_clock w) (new_slide (w_template w ! 0))),
                snd (content_slide_body (new_slide (w_template w ! 1))),
                snd (shapes_slide_body (new_slide (w_template w ! 6))),
                snd (table_slide_body (new_slide (w_template w ! 6))),
                snd (chart_slide_body (new_slide (w_template w ! 6))),
                snd (image_slide_body (new_slide (w_template w ! 6))),
                snd (image_slide_v2_body (new_slide (w_template w ! 6)))]
           \<and> slide_layout (slides prs ! 0) = w_template w ! 0
           \<and> title_frame (slides prs ! 0) = Some [styled str_L71 None None None None]
           \<and> placeholder_frame (slides prs ! 0) 1
               = Some [styled (str_L77_head @ strftime ''%Y-%m-%d'' (w_clock w))
                         None None None None,
                       styled (tl str_L77_tail) None None None None]
           \<and> slide_layout (slides prs ! 1) = w_template w ! 1
           \<and> title_frame (slides prs ! 1) = Some [styled str_L89 None None None None]
           \<and> placeholder_frame (slides prs ! 1) 1
               = Some [styled str_L101 None None None None, bullet str_L105, bullet str_L110,
                       bullet str_L115, bullet str_L120, bullet str_L125]
           \<and> shapes (slides prs ! 2) = shapes (new_slide (w_template w ! 6))
               @ [title_box str_L140,
                  AutoShape RECTANGLE (Inches 1) (Inches 2) (Inches 2) (Inches 1)
                    (FillSolid (Some (RGBColor 255 0 0))) False new_text_frame,
                  AutoShape OVAL (Inches 4) (Inches 2) (Inches 2) (Inches 1)
                    (FillSolid (Some (RGBColor 0 255 0))) True new_text_frame,
                  AutoShape STAR_5_POINT (Inches 2.5) (Inches 4) (Inches 2) (Inches 2)
                    (FillSolid (Some (RGBColor 255 255 0))) True new_text_frame,
                  AutoShape HEART (Inches 5.5) (Inches 4) (Inches 2) (Inches 2)
                    (FillSolid (Some (RGBColor 255 0 255))) True new_text_frame]
           \<and> length (filter is_autoshape (shapes (slides prs ! 2))) = 4
           \<and> shapes (slides prs ! 3) = shapes (new_slide (w_template w ! 6))
               @ [title_box str_L182,
                  TableFrame (Inches 2) (Inches 2) (Inches 6) (Inches 2)
                    (map (\<lambda>t. [styled t (Some (Pt 14)) (Some True) None None]) headers
                     # map (map (\<lambda>t. [styled t None None None None])) data)]
           \<and> length (filter is_table (shapes (slides prs ! 3))) = 1
           \<and> shapes (slides prs ! 4) = shapes (new_slide (w_template w ! 6))
               @ [title_box str_L227,
                  ChartFrame (Inches 1.5) (Inches 2) (Inches 7) (Inches 5)
                    \<lparr>chart_type = COLUMN_CLUSTERED,
                     chart_categories = [str_L234_0, str_L234_1, str_L234_2, str_L234_3],
                     chart_series = [(str_L241, [8.5, 10.2, 12.5, 9.8]),
                                     (str_L242, [10.2, 11.5, 13.8, 11.2])],
                     chart_title = Some [styled str_L260 None None None None]\<rparr>]
           \<and> length (filter is_chart (shapes (slides prs ! 4))) = 1
           \<and> shapes (slides prs ! 5) = shapes (new_slide (w_template w ! 6))
               @ [title_box str_L272,
                  TextBox (Inches 1) (Inches 2) (Inches 8) (Inches 1)
                    [styled str_L280 None None (Some True) None],
                  TextBox (Inches 1) (Inches 4) (Inches 8) (Inches 2)
                    [styled [] None None None None,
                     styled str_L294 (Some (Pt 20)) None None (Some CENTER),
                     styled str_L299 (Some (Pt 16)) None None (Some CENTER)]]
           \<and> length (filter is_textbox (shapes (slides prs ! 5))) = 3
           \<and> filter is_picture (shapes (slides prs ! 5)) = []
           \<and> shapes (slides prs ! 6) = shapes (new_slide (w_template w ! 6))
               @ [title_box str_L313,
                  Picture (Inches 2) (Inches 2.5) (Some (Inches 6)) None None
                    [Encoded ''PNG''
                       \<lparr>im_mode = ''RGB'', im_size = (500, 300), im_color = ''white'',
                        im_calls =
                          [Rectangle [(20, 20), (480, 280)] None (Some ''blue'') 5,
                           Rectangle [(100, 100), (400, 200)] (Some ''lightblue'')
                             (Some ''darkblue'') 2,
                           Text (250, 150) str_L341 (Some ''black'') (Some ''mm'')]\<rparr>],
                  TextBox (Inches 1) (Inches 6) (Inches 8) (Inches 1)
                    [styled [] None None None None,
                     styled str_L364 (Some (Pt 16)) None None (Some CENTER)]]
           \<and> length (filter is_picture (shapes (slides prs ! 6))) = 1"
proof -
  let ?T = "w_template w"
  let ?now = "w_clock w"
  let ?prs = "(Presentation ?T)\<lparr>slides := map (made ?now ?T) main_order\<rparr>"
  have many0: "1 < placeholders_len (new_slide (?T ! 0))"
    using two_members [OF assms(2,3)] by (simp add: new_slide_placeholders)
  have many1: "1 < placeholders_len (new_slide (?T ! 1))"
    using two_members [OF assms(4,5)] by (simp add: new_slide_placeholders)
  have i0: "idx1_present (?T ! 0)" and i1: "idx1_present (?T ! 1)"
    using assms(3,5) by (simp_all add: idx1_present_def)
  have m: "main w = (Inr (), print (str_L59 @ output_file w)
                       (w\<lparr>w_files := (w_files w)(output_file w \<mapsto> PptxFile ?prs)\<rparr>))"
    using main_success [OF assms(1) i0 i1 assms(6)] by (simp add: print_def)
  have len: "length (slides ?prs) = 7"
    by (simp add: main_order_def)
  have each: "slides ?prs =
               [snd (title_slide_body ?now (new_slide (?T ! 0))),
                snd (content_slide_body (new_slide (?T ! 1))),
                snd (shapes_slide_body (new_slide (?T ! 6))),
                snd (table_slide_body (new_slide (?T ! 6))),
                snd (chart_slide_body (new_slide (?T ! 6))),
                snd (image_slide_body (new_slide (?T ! 6))),
                snd (image_slide_v2_body (new_slide (?T ! 6)))]"
    by (simp add: main_order_def made_def)
  have nth: "slides ?prs ! 0 = snd (title_slide_body ?now (new_slide (?T ! 0)))"
    "slides ?prs ! 1 = snd (content_slide_body (new_slide (?T ! 1)))"
    "slides ?prs ! 2 = made ?now ?T ShapesSlide"
    "slides ?prs ! 3 = made ?now ?T TableSlide"
    "slides ?prs ! 4 = made ?now ?T ChartSlide"
    "slides ?prs ! 5 = made ?now ?T ImageSlide"
    "slides ?prs ! 6 = made ?now ?T ImageSlideV2"
    by (simp_all add: main_order_def made_def)
  from new_slide_has [OF assms(2)] new_slide_has [OF assms(3)] obtain t0 r0 where
    "find_index (has_idx 0) (shapes (new_slide (?T ! 0))) = Some t0"
    "find_index (has_idx 1) (shapes (new_slide (?T ! 0))) = Some r0"
    by blast
  note title = title_slide_body_frames [OF this many0, of ?now]
  from new_slide_has [OF assms(4)] new_slide_has [OF assms(5)] obtain t1 r1 where
    "find_index (has_idx 0) (shapes (new_slide (?T ! 1))) = Some t1"
    "find_index (has_idx 1) (shapes (new_slide (?T ! 1))) = Some r1"
    by blast
  note content = content_slide_body_frames [OF this many1]
  have layouts: "slide_layout (slides ?prs ! 0) = ?T ! 0" "slide_layout (slides ?prs ! 1) = ?T ! 1"
    unfolding nth by (simp_all add: title_slide_body_layout content_slide_body_layout)
  have counts: "length (filter is_autoshape (shapes (slides ?prs ! 2))) = 4"
    "length (filter is_table (shapes (slides ?prs ! 3))) = 1"
    "length (filter is_chart (shapes (slides ?prs ! 4))) = 1"
    "length (filter is_textbox (shapes (slides ?prs ! 5))) = 3"
    "filter is_picture (shapes (slides ?prs ! 5)) = []"
    "length (filter is_picture (shapes (slides ?prs ! 6))) = 1"
    unfolding nth by (rule made_kinds)+
  have tf0: "title_frame (slides ?prs ! 0) = Some [styled str_L71 None None None None]"
    unfolding nth by (rule title(2))
  have pf0: "placeholder_frame (slides ?prs ! 0) 1
               = Some [styled (str_L77_head @ strftime ''%Y-%m-%d'' (w_clock w))
                         None None None None,
                       styled (tl str_L77_tail) None None None None]"
    unfolding nth by (rule title(3))
  have tf1: "title_frame (slides ?prs ! 1) = Some [styled str_L89 None None None None]"
    unfolding nth by (rule content(2))
  have pf1: "placeholder_frame (slides ?prs ! 1) 1
               = Some [styled str_L101 None None None None, bullet str_L105, bullet str_L110,
                       bullet str_L115, bullet str_L120, bullet str_L125]"
    unfolding nth by (rule content(3))
  note sh = made_shapes [of ?now ?T, folded nth]
  from m len each layouts tf0 pf0 tf1 pf1 sh counts show ?thesis
    by (intro exI [of _ ?prs] conjI) assumption+
qed

theorem main_seven_slides_witness:
  "6 < length (w_template example_world)
   \<and> 0 \<in> set (map fst (cloned (w_template example_world ! 0)))
   \<and> 1 \<in> set (map fst (cloned (w_template example_world ! 0)))
   \<and> 0 \<in> set (map fst (cloned (w_template example_world ! 1)))
   \<and> 1 \<in> set (map fst (cloned (w_template example_world ! 1)))
   \<and> w_writable example_world (output_file example_world)
   \<and> fst (main example_world) = Inr ()
   \<and> (\<exists>prs. w_files (snd (main example_world)) ''/home/user/mytest/sample_presentation.pptx''
                 = Some (PptxFile prs)
          \<and> length (slides prs) = 7
          \<and> map_option text_frame_text (title_frame (slides prs ! 0)) = Some str_L71
          \<and> map_option (map p_text) (placeholder_frame (slides prs ! 0) 1)
              = Some [str_L77_head @ ''2026-11-04'', tl str_L77_tail]
          \<and> map_option text_frame_text (title_frame (slides prs ! 1)) = Some str_L89
          \<and> map_option (map p_text) (placeholder_frame (slides prs ! 1) 1)
              = Some [str_L101, str_L105, str_L110, str_L115, str_L120, str_L125]
          \<and> map_option (map p_level) (placeholder_frame (slides prs ! 1) 1)
              = Some [0, 1, 1, 1, 1, 1]
          \<and> map (\<lambda>s. length (shapes s)) (slides prs) = [2, 2, 5, 2, 2, 3, 3])"
proof -
  note h = example_world_ok(1) example_world_titled example_world_ok(4)
  have out: "output_file example_world = ''/home/user/mytest/sample_presentation.pptx''"
    by (rule example_output_file)
  have date: "strftime ''%Y-%m-%d'' (w_clock example_world) = ''2026-11-04''"
    by (rule example_date)
  have blank: "shapes (new_slide (w_template example_world ! 6)) = []"
    by (simp add: example_world_def default_template_def new_slide_def footers_def cloneable_def)
  have two: "length (shapes (new_slide (w_template example_world ! 0))) = 2"
    "length (shapes (new_slide (w_template example_world ! 1))) = 2"
    by (simp_all add: example_world_def default_template_def new_slide_def footers_def
        cloneable_def)
  from main_seven_slides [OF h(1) h(2) h(3) h(4) h(5) h(6)] show ?thesis
  proof (elim exE conjE)
    fix prs
    assume m: "main example_world
       = (Inr (), print (str_L59 @ output_file example_world)
            (example_world\<lparr>w_files := (w_files example_world)
               (output_file example_world \<mapsto> PptxFile prs)\<rparr>))"
    and len: "length (slides prs) = 7"
    and each: "slides prs =
               [snd (title_slide_body (w_clock example_world)
                       (new_slide (w_template example_world ! 0))),
                snd (content_slide_body (new_slide (w_template example_world ! 1))),
                snd (shapes_slide_body (new_slide (w_template example_world ! 6))),
                snd (table_slide_body (new_slide (w_template example_world ! 6))),
                snd (chart_slide_body (new_slide (w_template example_world ! 6))),
                snd (image_slide_body (new_slide (w_template example_world ! 6))),
                snd (image_slide_v2_body (new_slide (w_template example_world ! 6)))]"
    and tf0: "title_frame (slides prs ! 0) = Some [styled str_L71 None None None None]"
    and pf0: "placeholder_frame (slides prs ! 0) 1
               = Some [styled (str_L77_head @ strftime ''%Y-%m-%d'' (w_clock example_world))
                         None None None None,
                       styled (tl str_L77_tail) None None None None]"
    and tf1: "title_frame (slides prs ! 1) = Some [styled str_L89 None None None None]"
    and pf1: "placeholder_frame (slides prs ! 1) 1
               = Some [styled str_L101 None None None None, bullet str_L105, bullet str_L110,
                       bullet str_L115, bullet str_L120, bullet str_L125]"
    have ok: "fst (main example_world) = Inr ()"
      and written: "w_files (snd (main example_world)) ''/home/user/mytest/sample_presentation.pptx''
             = Some (PptxFile prs)"
      by (simp_all add: m out print_def)
    have texts: "map_option text_frame_text (title_frame (slides prs ! 0)) = Some str_L71"
      "map_option (map p_text) (placeholder_frame (slides prs ! 0) 1)
         = Some [str_L77_head @ ''2026-11-04'', tl str_L77_tail]"
      "map_option text_frame_text (title_frame (slides prs ! 1)) = Some str_L89"
      "map_option (map p_text) (placeholder_frame (slides prs ! 1) 1)
         = Some [str_L101, str_L105, str_L110, str_L115, str_L120, str_L125]"
      "map_option (map p_level) (placeholder_frame (slides prs ! 1) 1) = Some [0, 1, 1, 1, 1, 1]"
      unfolding tf0 pf0 tf1 pf1 date
      by (simp_all add: text_frame_text_def styled_def bullet_def)
    have sizes: "map (\<lambda>s. length (shapes s)) (slides prs) = [2, 2, 5, 2, 2, 3, 3]"
      unfolding each
      by (simp add: shapes_slide_body_eq table_slide_body_eq chart_slide_body_eq
          image_slide_body_eq image_slide_v2_body_eq blank title_slide_body_shapes_length
          content_slide_body_shapes_length two del: One_nat_def)
    have "\<exists>prs. w_files (snd (main example_world)) ''/home/user/mytest/sample_presentation.pptx''
                 = Some (PptxFile prs)
          \<and> length (slides prs) = 7
          \<and> map_option text_frame_text (title_frame (slides prs ! 0)) = Some str_L71
          \<and> map_option (map p_text) (placeholder_frame (slides prs ! 0) 1)
              = Some [str_L77_head @ ''2026-11-04'', tl str_L77_tail]
          \<and> map_option text_frame_text (title_frame (slides prs ! 1)) = Some str_L89
          \<and> map_option (map p_text) (placeholder_frame (slides prs ! 1) 1)
              = Some [str_L101, str_L105, str_L110, str_L115, str_L120, str_L125]
          \<and> map_option (map p_level) (placeholder_frame (slides prs ! 1) 1)
              = Some [0, 1, 1, 1, 1, 1]
          \<and> map (\<lambda>s. length (shapes s)) (slides prs) = [2, 2, 5, 2, 2, 3, 3]"
      using written len texts sizes by (intro exI [of _ prs] conjI) assumption+
    with h ok show ?thesis
      by (intro conjI) assumption+
  qed
qed

section \<open>No data flow between the procedures\<close>

text \<open>
  C2: a procedure returns nothing but \<open>None\<close> (here \<open>Inr ()\<close>) or an exception, and what
  it does to a presentation does not depend on the slides already there: it is what it does
  to the same presentation without slides, appended. So when the procedures, called in one
  order on a presentation, all return, they all return in any other order too, each adds the
  slide it adds when called alone, and the two results have the same layouts and the same
  slides, in the order of the calls.
\<close>

theorem order_independence:
  "run_procedure now p prs =
     (let (r, q) = run_procedure now p (prs\<lparr>slides := []\<rparr>)
      in (r, prs\<lparr>slides := slides prs @ slides q\<rparr>))
   \<and> (mset qs = mset ps \<and> run_all now ps prs = (Inr (), prs1) \<longrightarrow>
        (\<exists>prs2. run_all now qs prs = (Inr (), prs2)
           \<and> slide_layouts prs2 = slide_layouts prs1
           \<and> slides prs1 = slides prs
                @ concat (map (\<lambda>p. slides (snd (run_procedure now p (prs\<lparr>slides := []\<rparr>)))) ps)
           \<and> slides prs2 = slides prs
                @ concat (map (\<lambda>p. slides (snd (run_procedure now p (prs\<lparr>slides := []\<rparr>)))) qs)
           \<and> mset (slides prs2) = mset (slides prs1)))"
proof (intro conjI impI)
  show "run_procedure now p prs =
     (let (r, q) = run_procedure now p (prs\<lparr>slides := []\<rparr>)
      in (r, prs\<lparr>slides := slides prs @ slides q\<rparr>))"
    by (simp add: run_procedure_eq)
next
  assume h: "mset qs = mset ps \<and> run_all now ps prs = (Inr (), prs1)"
  let ?L = "slide_layouts prs"
  let ?alone = "\<lambda>p. slides (snd (run_procedure now p (prs\<lparr>slides := []\<rparr>)))"
  from h have ps: "list_all (succeeds ?L) ps"
    and prs1: "prs1 = prs\<lparr>slides := slides prs @ map (made now ?L) ps\<rparr>"
    by (simp_all add: run_all_ok)
  from h have "set qs = set ps"
    by (metis set_mset_mset)
  with ps have qs: "list_all (succeeds ?L) qs"
    by (simp add: list_all_iff)
  let ?prs2 = "prs\<lparr>slides := slides prs @ map (made now ?L) qs\<rparr>"
  have run: "run_all now qs prs = (Inr (), ?prs2)"
    using qs by (simp add: run_all_ok)
  have "mset (map (made now ?L) qs) = mset (map (made now ?L) ps)"
    using h by simp
  then have same: "mset (slides ?prs2) = mset (slides prs1)"
    by (simp add: prs1)
  show "\<exists>prs2. run_all now qs prs = (Inr (), prs2)
           \<and> slide_layouts prs2 = slide_layouts prs1
           \<and> slides prs1 = slides prs @ concat (map ?alone ps)
           \<and> slides prs2 = slides prs @ concat (map ?alone qs)
           \<and> mset (slides prs2) = mset (slides prs1)"
    using run same alone_eq_made [OF ps, of now] alone_eq_made [OF qs, of now]
    by (intro exI [of _ ?prs2]) (simp add: prs1)
qed

theorem order_independence_witness:
  "mset (rev main_order) = mset main_order
   \<and> run_all (w_clock example_world) main_order (Presentation default_template)
       = (Inr (), snd (run_all (w_clock example_world) main_order (Presentation default_template)))
   \<and> (\<exists>prs2. run_all (w_clock example_world) (rev main_order) (Presentation default_template)
                = (Inr (), prs2)
          \<and> mset (slides prs2)
              = mset (slides (snd (run_all (w_clock example_world) main_order
                                     (Presentation default_template)))))"
proof -
  let ?now = "w_clock example_world"
  let ?P = "Presentation default_template"
  have h1: "mset (rev main_order) = mset main_order"
    by simp
  have "list_all (succeeds (slide_layouts ?P)) main_order"
    by (rule main_order_succeeds)
       (simp_all add: Presentation_def default_template_def idx1_present_def cloned_def
          footers_def cloneable_def)
  then have "fst (run_all ?now main_order ?P) = Inr ()"
    using run_all_ok [of ?now main_order ?P
        "?P\<lparr>slides := slides ?P @ map (made ?now (slide_layouts ?P)) main_order\<rparr>"]
    by simp
  then have h2: "run_all ?now main_order ?P = (Inr (), snd (run_all ?now main_order ?P))"
    by (cases "run_all ?now main_order ?P") simp
  from order_independence [of ?now TitleSlide ?P "rev main_order" main_order
      "snd (run_all ?now main_order ?P)"] h1 h2
  show ?thesis
    by blast
qed

section \<open>Guards and exceptions\<close>



section \<open>The two image slides\<close>

text \<open>
  C4: on a presentation that has layout 6, \<open>create_image_slide\<close> adds a slide to which it
  adds three text boxes and nothing else, so the slide has no picture; the second text box is
  the note of line 280, that an actual image file is needed. \<open>create_image_slide_v2\<close>
  adds a slide with exactly one picture, read from a stream (it has no filename) and holding
  an encoded bitmap on which something was drawn.
\<close>

theorem image_slides_pictures:
  assumes "6 < length (slide_layouts prs)"
  shows "(\<exists>s note_tf. create_image_slide prs = (Inr (), prs\<lparr>slides := slides prs @ [s]\<rparr>)
            \<and> shapes s = shapes (new_slide (slide_layouts prs ! 6))
                  @ [title_box str_L272,
                     TextBox (Inches 1) (Inches 2) (Inches 8) (Inches 1) note_tf,
                     TextBox (Inches 1) (Inches 4) (Inches 8) (Inches 2)
                       [styled [] None None None None,
                        styled str_L294 (Some (Pt 20)) None None (Some CENTER),
                        styled str_L299 (Some (Pt 16)) None None (Some CENTER)]]
            \<and> text_frame_text note_tf = str_L280
            \<and> length (filter is_textbox (shapes s)) = 3
            \<and> filter is_picture (shapes s) = [])
       \<and> (\<exists>s img. create_image_slide_v2 prs = (Inr (), prs\<lparr>slides := slides prs @ [s]\<rparr>)
            \<and> filter is_picture (shapes s)
                  = [Picture (Inches 2) (Inches 2.5) (Some (Inches 6)) None None
                       [Encoded ''PNG'' img]]
            \<and> im_calls img \<noteq> [])"
proof -
  let ?note = "[styled str_L280 None None (Some True) None]"
  let ?s = "(new_slide (slide_layouts prs ! 6))
              \<lparr>shapes := shapes (new_slide (slide_layouts prs ! 6))
                 @ [title_box str_L272,
                    TextBox (Inches 1) (Inches 2) (Inches 8) (Inches 1) ?note,
                    TextBox (Inches 1) (Inches 4) (Inches 8) (Inches 2)
                      [styled [] None None None None,
                       styled str_L294 (Some (Pt 20)) None None (Some CENTER),
                       styled str_L299 (Some (Pt 16)) None None (Some CENTER)]]\<rparr>"
  have run: "create_image_slide prs = (Inr (), prs\<lparr>slides := slides prs @ [?s]\<rparr>)"
    using assms run_procedure_eq [of _ ImageSlide prs]
    by (simp add: image_slide_body_eq)
  have first: "\<exists>s note_tf. create_image_slide prs = (Inr (), prs\<lparr>slides := slides prs @ [s]\<rparr>)
            \<and> shapes s = shapes (new_slide (slide_layouts prs ! 6))
                  @ [title_box str_L272,
                     TextBox (Inches 1) (Inches 2) (Inches 8) (Inches 1) note_tf,
                     TextBox (Inches 1) (Inches 4) (Inches 8) (Inches 2)
                       [styled [] None None None None,
                        styled str_L294 (Some (Pt 20)) None None (Some CENTER),
                        styled str_L299 (Some (Pt 16)) None None (Some CENTER)]]
            \<and> text_frame_text note_tf = str_L280
            \<and> length (filter is_textbox (shapes s)) = 3
            \<and> filter is_picture (shapes s) = []"
    using run
    by (intro exI [of _ ?s] exI [of _ ?note])
       (simp add: new_slide_kinds title_box_def text_frame_text_def styled_def)
  let ?img = "\<lparr>im_mode = ''RGB'', im_size = (500, 300), im_color = ''white'',
               im_calls =
                 [Rectangle [(20, 20), (480, 280)] None (Some ''blue'') 5,
                  Rectangle [(100, 100), (400, 200)] (Some ''lightblue'') (Some ''darkblue'') 2,
                  Text (250, 150) str_L341 (Some ''black'') (Some ''mm'')]\<rparr>"
  let ?t = "(new_slide (slide_layouts prs ! 6))
              \<lparr>shapes := shapes (new_slide (slide_layouts prs ! 6))
                 @ [title_box str_L313,
                    Picture (Inches 2) (Inches 2.5) (Some (Inches 6)) None None
                      [Encoded ''PNG'' ?img],
                    TextBox (Inches 1) (Inches 6) (Inches 8) (Inches 1)
                      [styled [] None None None None,
                       styled str_L364 (Some (Pt 16)) None None (Some CENTER)]]\<rparr>"
  have run2: "create_image_slide_v2 prs = (Inr (), prs\<lparr>slides := slides prs @ [?t]\<rparr>)"
    using assms run_procedure_eq [of _ ImageSlideV2 prs]
    by (simp add: image_slide_v2_body_eq)
  have second: "\<exists>s img. create_image_slide_v2 prs
                   = (Inr (), prs\<lparr>slides := slides prs @ [s]\<rparr>)
            \<and> filter is_picture (shapes s)
                  = [Picture (Inches 2) (Inches 2.5) (Some (Inches 6)) None None
                       [Encoded ''PNG'' img]]
            \<and> im_calls img \<noteq> []"
    using run2
    by (intro exI [of _ ?t] exI [of _ ?img]) (simp add: new_slide_kinds title_box_def)
  from first second show ?thesis
    by (rule conjI)
qed

theorem image_slides_pictures_witness:
  "6 < length (slide_layouts (Presentation default_template))
   \<and> (\<exists>s. create_image_slide (Presentation default_template)
            = (Inr (), (Presentation default_template)\<lparr>slides := [s]\<rparr>)
          \<and> length (shapes s) = 3
          \<and> length (filter is_textbox (shapes s)) = 3
          \<and> filter is_picture (shapes s) = [])
   \<and> (\<exists>s. create_image_slide_v2 (Presentation default_template)
            = (Inr (), (Presentation default_template)\<lparr>slides := [s]\<rparr>)
          \<and> length (filter is_picture (shapes s)) = 1)"
proof -
  have h: "6 < length (slide_layouts (Presentation default_template))"
    by (simp add: Presentation_def default_template_def)
  have blank: "shapes (new_slide (slide_layouts (Presentation default_template) ! 6)) = []"
    by (simp add: Presentation_def default_template_def new_slide_def footers_def cloneable_def)
  have empty: "slides (Presentation default_template) = []"
    by (simp add: Presentation_def)
  from image_slides_pictures [OF h] obtain s note_tf t img where
    "create_image_slide (Presentation default_template)
       = (Inr (), (Presentation default_template)
            \<lparr>slides := slides (Presentation default_template) @ [s]\<rparr>)"
    "shapes s = shapes (new_slide (slide_layouts (Presentation default_template) ! 6))
       @ [title_box str_L272,
          TextBox (Inches 1) (Inches 2) (Inches 8) (Inches 1) note_tf,
          TextBox (Inches 1) (Inches 4) (Inches 8) (Inches 2)
            [styled [] None None None None,
             styled str_L294 (Some (Pt 20)) None None (Some CENTER),
             styled str_L299 (Some (Pt 16)) None None (Some CENTER)]]"
    "length (filter is_textbox (shapes s)) = 3"
    "filter is_picture (shapes s) = []"
    "create_image_slide_v2 (Presentation default_template)
       = (Inr (), (Presentation default_template)
            \<lparr>slides := slides (Presentation default_template) @ [t]\<rparr>)"
    "filter is_picture (shapes t)
       = [Picture (Inches 2) (Inches 2.5) (Some (Inches 6)) None None [Encoded ''PNG'' img]]"
    by blast
  then show ?thesis
    using h unfolding blank empty
    by (intro conjI exI [of _ s] exI [of _ t]) simp_all
qed

section \<open>The bitmap of the second image slide\<close>

text \<open>
  C5: the picture that \<open>create_image_slide_v2\<close> embeds holds the PNG encoding of a 500 by
  300 RGB image with a white background on which exactly three drawing calls were made: two
  rectangles and one text, anchored by its middle at the centre of the image. The picture was
  read from a stream, so it has no filename, and its content is what the stream holds after
  the image is saved into a new \<open>BytesIO\<close> and the stream is rewound.
\<close>

theorem image_slide_v2_bitmap:
  assumes "6 < length (slide_layouts prs)"
  shows "\<exists>s img r1 r2 label.
           create_image_slide_v2 prs = (Inr (), prs\<lparr>slides := slides prs @ [s]\<rparr>)
           \<and> shapes s = shapes (new_slide (slide_layouts prs ! 6))
                 @ [title_box str_L313,
                    Picture (Inches 2) (Inches 2.5) (Some (Inches 6)) None None
                      (read_all (seek 0 (image_save img ''PNG'' new_BytesIO))),
                    TextBox (Inches 1) (Inches 6) (Inches 8) (Inches 1)
                      [styled [] None None None None,
                       styled str_L364 (Some (Pt 16)) None None (Some CENTER)]]
           \<and> read_all (seek 0 (image_save img ''PNG'' new_BytesIO)) = [Encoded ''PNG'' img]
           \<and> im_mode img = ''RGB'' \<and> im_size img = (500, 300) \<and> im_color img = ''white''
           \<and> im_calls img = [r1, r2, label]
           \<and> r1 = Rectangle [(20, 20), (480, 280)] None (Some ''blue'') 5
           \<and> r2 = Rectangle [(100, 100), (400, 200)] (Some ''lightblue'') (Some ''darkblue'') 2
           \<and> label = Text (int (fst (im_size img)) div 2, int (snd (im_size img)) div 2)
                        str_L341 (Some ''black'') (Some ''mm'')"
proof -
  let ?img = "\<lparr>im_mode = ''RGB'', im_size = (500, 300), im_color = ''white'',
               im_calls =
                 [Rectangle [(20, 20), (480, 280)] None (Some ''blue'') 5,
                  Rectangle [(100, 100), (400, 200)] (Some ''lightblue'') (Some ''darkblue'') 2,
                  Text (250, 150) str_L341 (Some ''black'') (Some ''mm'')]\<rparr>"
  let ?s = "(new_slide (slide_layouts prs ! 6))
              \<lparr>shapes := shapes (new_slide (slide_layouts prs ! 6))
                 @ [title_box str_L313,
                    Picture (Inches 2) (Inches 2.5) (Some (Inches 6)) None None
                      [Encoded ''PNG'' ?img],
                    TextBox (Inches 1) (Inches 6) (Inches 8) (Inches 1)
                      [styled [] None None None None,
                       styled str_L364 (Some (Pt 16)) None None (Some CENTER)]]\<rparr>"
  have run: "create_image_slide_v2 prs = (Inr (), prs\<lparr>slides := slides prs @ [?s]\<rparr>)"
    using assms run_procedure_eq [of _ ImageSlideV2 prs]
    by (simp add: image_slide_v2_body_eq)
  have stream: "read_all (seek 0 (image_save ?img ''PNG'' new_BytesIO)) = [Encoded ''PNG'' ?img]"
    by (simp add: read_all_def seek_def image_save_def new_BytesIO_def)
  show ?thesis
    using run stream
    by (intro exI [of _ ?s] exI [of _ ?img]
          exI [of _ "Rectangle [(20, 20), (480, 280)] None (Some ''blue'') 5"]
          exI [of _ "Rectangle [(100, 100), (400, 200)] (Some ''lightblue'')
                       (Some ''darkblue'') 2"]
          exI [of _ "Text (250, 150) str_L341 (Some ''black'') (Some ''mm'')"])
       simp
qed

theorem image_slide_v2_bitmap_witness:
  "6 < length (slide_layouts (Presentation default_template))
   \<and> (\<exists>s img. create_image_slide_v2 (Presentation default_template)
            = (Inr (), (Presentation default_template)\<lparr>slides := [s]\<rparr>)
          \<and> shapes s ! 1 = Picture (Inches 2) (Inches 2.5) (Some (Inches 6)) None None
                             [Encoded ''PNG'' img]
          \<and> im_size img = (500, 300)
          \<and> length (im_calls img) = 3)"
proof -
  have h: "6 < length (slide_layouts (Presentation default_template))"
    by (simp add: Presentation_def default_template_def)
  have blank: "shapes (new_slide (slide_layouts (Presentation default_template) ! 6)) = []"
    by (simp add: Presentation_def default_template_def new_slide_def footers_def cloneable_def)
  have empty: "slides (Presentation default_template) = []"
    by (simp add: Presentation_def)
  from image_slide_v2_bitmap [OF h] obtain s img r1 r2 label where
    "create_image_slide_v2 (Presentation default_template)
       = (Inr (), (Presentation default_template)
            \<lparr>slides := slides (Presentation default_template) @ [s]\<rparr>)"
    "shapes s = shapes (new_slide (slide_layouts (Presentation default_template) ! 6))
       @ [title_box str_L313,
          Picture (Inches 2) (Inches 2.5) (Some (Inches 6)) None None
            (read_all (seek 0 (image_save img ''PNG'' new_BytesIO))),
          TextBox (Inches 1) (Inches 6) (Inches 8) (Inches 1)
            [styled [] None None None None,
             styled str_L364 (Some (Pt 16)) None None (Some CENTER)]]"
    "read_all (seek 0 (image_save img ''PNG'' new_BytesIO)) = [Encoded ''PNG'' img]"
    "im_size img = (500, 300)"
    "im_calls img = [r1, r2, label]"
    by blast
  then show ?thesis
    using h unfolding blank empty
    by (intro conjI exI [of _ s] exI [of _ img]) simp_all
qed

section \<open>The chart slide\<close>

text \<open>
  C6: on a presentation that has layout 6, \<open>create_chart_slide\<close> returns normally having
  added one slide whose added shapes are the title box and one chart frame; the chart is a
  clustered-column chart with exactly the four literal categories and exactly two series,
  each with four literal values.
\<close>

theorem chart_slide_chart:
  assumes "6 < length (slide_layouts prs)"
  shows "\<exists>ch s. create_chart_slide prs = (Inr (), prs\<lparr>slides := slides prs @ [s]\<rparr>)
           \<and> shapes s = shapes (new_slide (slide_layouts prs ! 6))
                 @ [title_box str_L227,
                    ChartFrame (Inches 1.5) (Inches 2) (Inches 7) (Inches 5) ch]
           \<and> chart_type ch = COLUMN_CLUSTERED
           \<and> chart_categories ch = [str_L234_0, str_L234_1, str_L234_2, str_L234_3]
           \<and> length (chart_categories ch) = 4
           \<and> chart_series ch = [(str_L241, [8.5, 10.2, 12.5, 9.8]),
                                (str_L242, [10.2, 11.5, 13.8, 11.2])]
           \<and> length (chart_series ch) = 2
           \<and> list_all (\<lambda>series. length (snd series) = 4) (chart_series ch)"
proof -
  let ?ch = "\<lparr>chart_type = COLUMN_CLUSTERED,
              chart_categories = [str_L234_0, str_L234_1, str_L234_2, str_L234_3],
              chart_series = [(str_L241, [8.5, 10.2, 12.5, 9.8]),
                              (str_L242, [10.2, 11.5, 13.8, 11.2])],
              chart_title = Some [styled str_L260 None None None None]\<rparr>"
  let ?s = "(new_slide (slide_layouts prs ! 6))
              \<lparr>shapes := shapes (new_slide (slide_layouts prs ! 6))
                 @ [title_box str_L227,
                    ChartFrame (Inches 1.5) (Inches 2) (Inches 7) (Inches 5) ?ch]\<rparr>"
  have "create_chart_slide prs = (Inr (), prs\<lparr>slides := slides prs @ [?s]\<rparr>)"
    using assms run_procedure_eq [of _ ChartSlide prs]
    by (simp add: chart_slide_body_eq)
  then show ?thesis
    by (intro exI [of _ ?ch] exI [of _ ?s]) simp
qed

theorem chart_slide_chart_witness:
  "6 < length (slide_layouts (Presentation default_template))
   \<and> (\<exists>ch s. create_chart_slide (Presentation default_template)
           = (Inr (), (Presentation default_template)\<lparr>slides := [s]\<rparr>)
         \<and> shapes s = [title_box str_L227,
                       ChartFrame (Inches 1.5) (Inches 2) (Inches 7) (Inches 5) ch]
         \<and> length (chart_categories ch) = 4
         \<and> length (chart_series ch) = 2
         \<and> list_all (\<lambda>series. length (snd series) = 4) (chart_series ch))"
proof -
  have h: "6 < length (slide_layouts (Presentation default_template))"
    by (simp add: Presentation_def default_template_def)
  have blank: "shapes (new_slide (slide_layouts (Presentation default_template) ! 6)) = []"
    by (simp add: Presentation_def default_template_def new_slide_def footers_def cloneable_def)
  show ?thesis
    using h chart_slide_chart [OF h] unfolding blank
    by (auto simp add: Presentation_def)
qed

section \<open>The table slide\<close>

text \<open>
  C7: on a presentation that has layout 6, \<open>create_table_slide\<close> returns normally having
  added one slide with exactly one table, of 4 rows and 3 columns. Each of the 12 cells holds
  a literal string: row 0 the three headers, bold at 14 points, and row \<open>r + 1\<close> the data
  tuple of index \<open>r\<close>.
\<close>

theorem table_slide_table:
  assumes "6 < length (slide_layouts prs)"
  shows "\<exists>tbl s. create_table_slide prs = (Inr (), prs\<lparr>slides := slides prs @ [s]\<rparr>)
           \<and> shapes s = shapes (new_slide (slide_layouts prs ! 6))
                 @ [title_box str_L182,
                    TableFrame (Inches 2) (Inches 2) (Inches 6) (Inches 2) tbl]
           \<and> filter is_table (shapes s)
                 = [TableFrame (Inches 2) (Inches 2) (Inches 6) (Inches 2) tbl]
           \<and> length tbl = 4
           \<and> list_all (\<lambda>row. length row = 3) tbl
           \<and> (\<forall>c<3. text_frame_text (tbl ! 0 ! c) = headers ! c
                    \<and> map p_font (tbl ! 0 ! c)
                        = [\<lparr>font_size = Some (Pt 14), font_bold = Some True,
                            font_italic = None\<rparr>])
           \<and> (\<forall>r<3. \<forall>c<3. text_frame_text (tbl ! (r + 1) ! c) = data ! r ! c)
           \<and> headers = [str_L197_0, str_L197_1, str_L197_2]
           \<and> data = [[str_L206_0, str_L206_1, str_L206_2],
                      [str_L207_0, str_L207_1, str_L207_2],
                      [str_L208_0, str_L208_1, str_L208_2]]"
proof -
  let ?tbl = "map (\<lambda>t. [styled t (Some (Pt 14)) (Some True) None None]) headers
              # map (map (\<lambda>t. [styled t None None None None])) data"
  let ?s = "(new_slide (slide_layouts prs ! 6))
              \<lparr>shapes := shapes (new_slide (slide_layouts prs ! 6))
                 @ [title_box str_L182,
                    TableFrame (Inches 2) (Inches 2) (Inches 6) (Inches 2) ?tbl]\<rparr>"
  have run: "create_table_slide prs = (Inr (), prs\<lparr>slides := slides prs @ [?s]\<rparr>)"
    using assms run_procedure_eq [of _ TableSlide prs]
    by (simp add: table_slide_body_eq)
  have one: "filter is_table (shapes ?s)
               = [TableFrame (Inches 2) (Inches 2) (Inches 6) (Inches 2) ?tbl]"
    by (simp add: new_slide_kinds title_box_def)
  have dims: "length ?tbl = 4 \<and> list_all (\<lambda>row. length row = 3) ?tbl"
    by (simp add: headers_def data_def)
  have head: "\<forall>c<3. text_frame_text (?tbl ! 0 ! c) = headers ! c
                \<and> map p_font (?tbl ! 0 ! c)
                    = [\<lparr>font_size = Some (Pt 14), font_bold = Some True, font_italic = None\<rparr>]"
    by (auto simp add: headers_def text_frame_text_def styled_def numeral_eq_Suc less_Suc_eq)
  have rows: "\<forall>r<3. \<forall>c<3. text_frame_text (?tbl ! (r + 1) ! c) = data ! r ! c"
    by (auto simp add: data_def text_frame_text_def styled_def numeral_eq_Suc less_Suc_eq)
  have lits: "headers = [str_L197_0, str_L197_1, str_L197_2]
              \<and> data = [[str_L206_0, str_L206_1, str_L206_2],
                         [str_L207_0, str_L207_1, str_L207_2],
                         [str_L208_0, str_L208_1, str_L208_2]]"
    by (simp add: headers_def data_def)
  have sh: "shapes ?s = shapes (new_slide (slide_layouts prs ! 6))
                 @ [title_box str_L182,
                    TableFrame (Inches 2) (Inches 2) (Inches 6) (Inches 2) ?tbl]"
    by simp
  from run sh one dims head rows lits show ?thesis
    by (intro exI [of _ ?tbl] exI [of _ ?s]) blast
qed

theorem table_slide_table_witness:
  "6 < length (slide_layouts (Presentation default_template))
   \<and> (\<exists>tbl s. create_table_slide (Presentation default_template)
            = (Inr (), (Presentation default_template)\<lparr>slides := [s]\<rparr>)
         \<and> shapes s = [title_box str_L182,
                       TableFrame (Inches 2) (Inches 2) (Inches 6) (Inches 2) tbl]
         \<and> length tbl = 4
         \<and> list_all (\<lambda>row. length row = 3) tbl
         \<and> text_frame_text (tbl ! 0 ! 1) = str_L197_1
         \<and> text_frame_text (tbl ! 3 ! 2) = str_L208_2)"
proof -
  have h: "6 < length (slide_layouts (Presentation default_template))"
    by (simp add: Presentation_def default_template_def)
  have blank: "shapes (new_slide (slide_layouts (Presentation default_template) ! 6)) = []"
    by (simp add: Presentation_def default_template_def new_slide_def footers_def cloneable_def)
  from table_slide_table [OF h] obtain tbl s where
    run: "create_table_slide (Presentation default_template)
            = (Inr (), (Presentation default_template)
                 \<lparr>slides := slides (Presentation default_template) @ [s]\<rparr>)"
    and sh: "shapes s = shapes (new_slide (slide_layouts (Presentation default_template) ! 6))
               @ [title_box str_L182,
                  TableFrame (Inches 2) (Inches 2) (Inches 6) (Inches 2) tbl]"
    and dims: "length tbl = 4" "list_all (\<lambda>row. length row = 3) tbl"
    and head: "\<forall>c<3. text_frame_text (tbl ! 0 ! c) = headers ! c
                 \<and> map p_font (tbl ! 0 ! c)
                     = [\<lparr>font_size = Some (Pt 14), font_bold = Some True,
                         font_italic = None\<rparr>]"
    and rows: "\<forall>r<3. \<forall>c<3. text_frame_text (tbl ! (r + 1) ! c) = data ! r ! c"
    by blast
  from head have "text_frame_text (tbl ! 0 ! 1) = str_L197_1"
    by (simp add: headers_def)
  moreover have "text_frame_text (tbl ! (2 + 1) ! 2) = data ! 2 ! 2"
    using rows [rule_format, of 2 2] by simp
  then have "text_frame_text (tbl ! 3 ! 2) = str_L208_2"
    by (simp add: data_def)
  ultimately show ?thesis
    using h run sh dims unfolding blank
    by (intro conjI exI [of _ tbl] exI [of _ s]) (simp_all add: Presentation_def)
qed

section \<open>What \<open>main\<close> touches\<close>

text \<open>
  C8: \<open>main\<close> leaves every file other than its output file as it was, and the command
  line, the environment and the rest of its surroundings too. When it raises, nothing at
  all has changed; when it returns, what has changed is the output file, written once with
  the document, and the line printed. Its result does not depend on the command line or on
  the environment: with others in their place it does the same.
\<close>

theorem main_frame:
  "(\<forall>path. path \<noteq> output_file w \<longrightarrow> w_files (snd (main w)) path = w_files w path)
   \<and> w_argv (snd (main w)) = w_argv w
   \<and> w_environ (snd (main w)) = w_environ w
   \<and> w_file (snd (main w)) = w_file w
   \<and> w_clock (snd (main w)) = w_clock w
   \<and> w_template (snd (main w)) = w_template w
   \<and> w_writable (snd (main w)) = w_writable w
   \<and> (fst (main w) \<noteq> Inr () \<longrightarrow> snd (main w) = w)
   \<and> (fst (main w) = Inr () \<longrightarrow>
        (\<exists>prs. snd (main w)
           = w\<lparr>w_files := (w_files w)(output_file w \<mapsto> PptxFile prs),
               w_stdout := w_stdout w @ [str_L59 @ output_file w]\<rparr>))
   \<and> main (w\<lparr>w_argv := argv, w_environ := environ\<rparr>)
       = (fst (main w), (snd (main w))\<lparr>w_argv := argv, w_environ := environ\<rparr>)"
proof (cases "run_all (w_clock w) main_order (Presentation (w_template w))")
  case (Pair r prs)
  show ?thesis
  proof (cases r)
    case (Inl e)
    with Pair show ?thesis
      by (simp add: main_cases)
  next
    case (Inr u)
    with Pair show ?thesis
      by (cases "w_writable w (output_file w)") (auto simp add: main_cases)
  qed
qed

theorem main_frame_witness:
  "''/etc/hosts'' \<noteq> output_file example_world
   \<and> w_files (snd (main example_world)) ''/etc/hosts'' = w_files example_world ''/etc/hosts''
   \<and> fst (main example_world) = Inr ()
   \<and> (\<exists>prs. snd (main example_world)
          = example_world
              \<lparr>w_files := (w_files example_world)(output_file example_world \<mapsto> PptxFile prs),
               w_stdout := w_stdout example_world
                 @ [str_L59 @ output_file example_world]\<rparr>)
   \<and> fst (main (example_world\<lparr>w_writable := (\<lambda>path. False)\<rparr>)) \<noteq> Inr ()
   \<and> snd (main (example_world\<lparr>w_writable := (\<lambda>path. False)\<rparr>))
       = example_world\<lparr>w_writable := (\<lambda>path. False)\<rparr>"
proof -
  let ?w3 = "example_world\<lparr>w_writable := (\<lambda>path. False)\<rparr>"
  have p: "''/etc/hosts'' \<noteq> output_file example_world"
    by (simp add: example_output_file)
  have ok: "fst (main example_world) = Inr ()"
    using main_success [OF example_world_ok(1-4)] by simp
  have "fst (main ?w3) = Inl OSError"
    using main_order_succeeds [OF example_world_ok(1-3)]
      run_all_ok [of "w_clock example_world" main_order "Presentation (w_template example_world)"
        "(Presentation (w_template example_world))
           \<lparr>slides := slides (Presentation (w_template example_world))
              @ map (made (w_clock example_world)
                       (slide_layouts (Presentation (w_template example_world)))) main_order\<rparr>"]
    by (simp add: main_cases Presentation_def)
  then have bad: "fst (main ?w3) \<noteq> Inr ()"
    by simp
  from main_frame [of example_world] p ok
  have "w_files (snd (main example_world)) ''/etc/hosts'' = w_files example_world ''/etc/hosts''"
    and "\<exists>prs. snd (main example_world)
          = example_world
              \<lparr>w_files := (w_files example_world)(output_file example_world \<mapsto> PptxFile prs),
               w_stdout := w_stdout example_world
                 @ [str_L59 @ output_file example_world]\<rparr>"
    by blast+
  moreover from main_frame [of ?w3] bad have "snd (main ?w3) = ?w3"
    by blast
  ultimately show ?thesis
    using p ok bad by blast
qed

section \<open>The date in the subtitle\<close>

text \<open>
  C9: the output depends on the clock. Take a world in which \<open>main\<close> returns and in which
  the title layout has more than one placeholder, one of them with \<open>idx\<close> 1, and run
  \<open>main\<close> at two readings of the clock that fall on different dates. Then the text of the
  subtitle of the first slide is the text of line 77 with the one date and with the other,
  the two texts differ, and so do the two documents written to the output file.
\<close>

theorem dated_subtitle:
  assumes "6 < length (w_template w)"
    and "1 < length (cloned (w_template w ! 0))"
    and "1 \<in> set (map fst (cloned (w_template w ! 0)))"
    and "idx1_present (w_template w ! 1)"
    and "w_writable w (output_file w)"
    and "valid_date d1" and "valid_date d2" and "\<not> same_date d1 d2"
  shows "\<exists>prs1 prs2.
           w_files (snd (main (w\<lparr>w_clock := d1\<rparr>))) (output_file w) = Some (PptxFile prs1)
           \<and> w_files (snd (main (w\<lparr>w_clock := d2\<rparr>))) (output_file w) = Some (PptxFile prs2)
           \<and> subtitle_text (slides prs1 ! 0)
               = Some (str_L77_head @ strftime ''%Y-%m-%d'' d1 @ str_L77_tail)
           \<and> subtitle_text (slides prs2 ! 0)
               = Some (str_L77_head @ strftime ''%Y-%m-%d'' d2 @ str_L77_tail)
           \<and> subtitle_text (slides prs1 ! 0) \<noteq> subtitle_text (slides prs2 ! 0)
           \<and> prs1 \<noteq> prs2"
proof -
  let ?T = "w_template w"
  let ?s = "new_slide (?T ! 0)"
  let ?P = "\<lambda>d. (Presentation ?T)\<lparr>slides := map (made d ?T) main_order\<rparr>"
  let ?text = "\<lambda>d. str_L77_head @ strftime ''%Y-%m-%d'' d @ str_L77_tail"
  have idx: "idx1_present (?T ! 0)"
    using assms(3) by (simp add: idx1_present_def)
  have written: "w_files (snd (main (w\<lparr>w_clock := d\<rparr>))) (output_file w) = Some (PptxFile (?P d))"
    for d
    using assms(1,4,5) idx by (simp add: main_success)
  have many: "1 < placeholders_len ?s"
    using assms(2) by (simp add: new_slide_placeholders)
  from assms(3) have "find_index (has_idx 1) (shapes ?s) \<noteq> None"
    by (simp only: new_slide_find) simp
  then obtain r where r: "find_index (has_idx 1) (shapes ?s) = Some r"
    by blast
  have first: "slides (?P d) ! 0 = snd (title_slide_body d ?s)" for d
    by (simp add: main_order_def made_def)
  have sub: "subtitle_text (slides (?P d) ! 0) = Some (?text d)" for d
    unfolding first by (rule subtitle_of_title_body [OF many r])
  from assms(6-8) have "strftime ''%Y-%m-%d'' d1 \<noteq> strftime ''%Y-%m-%d'' d2"
    using strftime_date_inj by blast
  then have diff: "subtitle_text (slides (?P d1) ! 0) \<noteq> subtitle_text (slides (?P d2) ! 0)"
    unfolding sub by simp
  then have "?P d1 \<noteq> ?P d2"
    by metis
  with written [of d1] written [of d2] sub [of d1] sub [of d2] diff show ?thesis
    by blast
qed

theorem dated_subtitle_witness:
  "6 < length (w_template example_world)
   \<and> 1 < length (cloned (w_template example_world ! 0))
   \<and> 1 \<in> set (map fst (cloned (w_template example_world ! 0)))
   \<and> idx1_present (w_template example_world ! 1)
   \<and> w_writable example_world (output_file example_world)
   \<and> valid_date (w_clock example_world)
   \<and> valid_date ((w_clock example_world)\<lparr>day := 5\<rparr>)
   \<and> \<not> same_date (w_clock example_world) ((w_clock example_world)\<lparr>day := 5\<rparr>)
   \<and> w_files (snd (main (example_world\<lparr>w_clock := w_clock example_world\<rparr>)))
         (output_file example_world)
       \<noteq> w_files (snd (main (example_world\<lparr>w_clock := (w_clock example_world)\<lparr>day := 5\<rparr>\<rparr>)))
           (output_file example_world)"
proof -
  let ?d1 = "w_clock example_world"
  let ?d2 = "(w_clock example_world)\<lparr>day := 5\<rparr>"
  have v1: "valid_date ?d1" and v2: "valid_date ?d2" and ne: "\<not> same_date ?d1 ?d2"
    by (simp_all add: valid_date_def same_date_def example_world_def)
  from dated_subtitle [OF example_world_ok(1,5,6,3,4) v1 v2 ne]
  have "w_files (snd (main (example_world\<lparr>w_clock := ?d1\<rparr>))) (output_file example_world)
       \<noteq> w_files (snd (main (example_world\<lparr>w_clock := ?d2\<rparr>))) (output_file example_world)"
    by force
  with example_world_ok v1 v2 ne show ?thesis
    by blast
qed

section \<open>One slide for each call\<close>

text \<open>
  C10, as stated, fails: a procedure called on a presentation that lacks the layout it asks
  for raises \<open>IndexError\<close> at the lookup, before any slide is added. On a presentation
  with no layout, \<open>create_title_slide\<close> leaves the slide count as it was.
\<close>

theorem one_slide_each_counterexample:
  "length (slides (snd (create_title_slide (w_clock example_world) (Presentation []))))
     \<noteq> length (slides (Presentation [])) + 1"
  by (simp add: create_title_slide_def slide_layouts_getitem_def Presentation_def)

text \<open>
  C10, amended: each of the seven procedures, called on a presentation that has the layout
  it asks for (0 for the title slide, 1 for the content slide, 6 for the others), adds
  exactly one slide, at the end; called on a presentation without that layout it raises
  \<open>IndexError\<close> and leaves the presentation as it was. In both cases the slides already
  present stay where they were, unchanged.
\<close>

theorem one_slide_each:
  "(layout_index p < length (slide_layouts prs) \<longrightarrow>
      (\<exists>s. snd (run_procedure now p prs) = prs\<lparr>slides := slides prs @ [s]\<rparr>)
      \<and> length (slides (snd (run_procedure now p prs))) = length (slides prs) + 1)
   \<and> (length (slide_layouts prs) \<le> layout_index p \<longrightarrow>
        run_procedure now p prs = (Inl IndexError, prs))
   \<and> take (length (slides prs)) (slides (snd (run_procedure now p prs))) = slides prs"
  by (auto simp add: run_procedure_eq)

theorem one_slide_each_witness:
  "layout_index TableSlide < length (slide_layouts (Presentation default_template))
   \<and> length (slides (snd (run_procedure (w_clock example_world) TableSlide
                            (Presentation default_template)))) = 1
   \<and> length (slide_layouts (Presentation [])) \<le> layout_index TitleSlide
   \<and> run_procedure (w_clock example_world) TitleSlide (Presentation [])
       = (Inl IndexError, Presentation [])"
  using one_slide_each [of TableSlide "Presentation default_template" "w_clock example_world"]
    one_slide_each [of TitleSlide "Presentation []" "w_clock example_world"]
  by (simp add: Presentation_def default_template_def)

end
